theory Spec2Isabelle
  imports Main "HOL-Library.Word" "HOL-Library.Signed_Division"
begin

section \<open>zapcloudwatch: a shallow embedding of cloudwatch.go\<close>

text \<open>
  The Go package has three parts: the mutex-protected FIFO \<open>EntryQueue\<close> with its
  package-level instance \<open>msgCache\<close>, the wrapping core \<open>PikaCore\<close> (methods \<open>Check\<close>
  and \<open>Write\<close>), and \<open>CloudwatchHook\<close> with \<open>GetHook\<close>, \<open>sendEvent\<close>, \<open>Levels\<close>,
  \<open>isAcceptedLevel\<close> and the package-level \<open>AllLevels\<close> and \<open>LevelThreshold\<close>.
  Mutation is explicit state passing, Go's \<open>error\<close> results are \<open>error option\<close>
  (\<open>None\<close> is \<open>nil\<close>) or a sum, and the world outside the process (the CloudWatch
  Logs service, the wrapped core) is a parameter.
\<close>

subsection \<open>Levels (zapcore.Level is an int8)\<close>

type_synonym Level = "8 word"
type_synonym int64 = "64 word"

text \<open>The constants of go.uber.org/zap v1.24.0, zapcore/level.go.\<close>

definition DebugLevel :: Level where "DebugLevel = - 1"
definition InfoLevel :: Level where "InfoLevel = 0"
definition WarnLevel :: Level where "WarnLevel = 1"
definition ErrorLevel :: Level where "ErrorLevel = 2"
definition DPanicLevel :: Level where "DPanicLevel = 3"
definition PanicLevel :: Level where "PanicLevel = 4"
definition FatalLevel :: Level where "FatalLevel = 5"

text \<open>\<^verbatim>\<open>var AllLevels = []zapcore.Level{Debug, Info, Warn, Error, Fatal, Panic}\<close>\<close>

definition AllLevels :: "Level list" where
  "AllLevels = [DebugLevel, InfoLevel, WarnLevel, ErrorLevel, FatalLevel, PanicLevel]"

text \<open>
  \<^verbatim>\<open>for i := range AllLevels { if AllLevels[i] == l { return AllLevels[i:] } }\<close>
  \<^verbatim>\<open>return []zapcore.Level{}\<close>
  The loop, started at index \<open>i\<close>.
\<close>

function LevelThreshold_from :: "nat \<Rightarrow> Level \<Rightarrow> Level list" where
  "LevelThreshold_from i l =
     (if i < length AllLevels
      then (if AllLevels ! i = l then drop i AllLevels else LevelThreshold_from (Suc i) l)
      else [])"
  by pat_completeness auto
termination
  by (relation "measure (\<lambda>(i, l). length AllLevels - i)") auto

declare LevelThreshold_from.simps [simp del]

definition LevelThreshold :: "Level \<Rightarrow> Level list" where
  "LevelThreshold l = LevelThreshold_from 0 l"

subsection \<open>Entries and the queue\<close>

text \<open>
  zapcore.Entry. \<open>Time\<close> (a time.Time) and \<open>Caller\<close> (an EntryCaller) are carried
  along and never inspected by this package.
\<close>

record Entry =
  Level :: Level
  Time :: int
  LoggerName :: string
  Message :: string
  Caller :: string
  Stack :: string

text \<open>
  \<open>EntryQueue\<close> is a \<open>container/list\<close> behind a mutex; its contents, front first.
  Each method holds the lock for its whole body, so each is one atomic step.
\<close>

type_synonym EntryQueue = "Entry list"

definition Push :: "Entry \<Rightarrow> EntryQueue \<Rightarrow> EntryQueue" where
  "Push entry eq = eq @ [entry]"

text \<open>\<open>Pop\<close> returns \<open>nil\<close> (\<open>None\<close>) on an empty list, otherwise the removed front.\<close>

definition Pop :: "EntryQueue \<Rightarrow> Entry option \<times> EntryQueue" where
  "Pop eq = (if length eq = 0 then (None, eq) else (Some (hd eq), tl eq))"

text \<open>A producer pushing a list of entries in order, then a consumer popping \<open>k\<close> times.\<close>

fun pushes :: "Entry list \<Rightarrow> EntryQueue \<Rightarrow> EntryQueue" where
  "pushes [] eq = eq"
| "pushes (p # ps) eq = pushes ps (Push p eq)"

fun pops :: "nat \<Rightarrow> EntryQueue \<Rightarrow> Entry option list \<times> EntryQueue" where
  "pops 0 eq = ([], eq)"
| "pops (Suc k) eq =
     (case Pop eq of (r, eq') \<Rightarrow> (case pops k eq' of (rs, eq'') \<Rightarrow> (r # rs, eq'')))"

subsection \<open>Fields and the converted field map\<close>

text \<open>
  zapcore.FieldType (a uint8 enumeration), the constants of zap v1.24.0 in their order.
\<close>

datatype FieldType =
    UnknownType | ArrayMarshalerType | ObjectMarshalerType | BinaryType | BoolType
  | ByteStringType | Complex128Type | Complex64Type | DurationType | Float64Type
  | Float32Type | Int64Type | Int32Type | Int16Type | Int8Type | StringType | TimeType
  | TimeFullType | Uint64Type | Uint32Type | Uint16Type | Uint8Type | UintptrType
  | ReflectType | NamespaceType | StringerType | ErrorType | SkipType
  | InlineMarshalerType

text \<open>
  A Go \<open>interface{}\<close> value: \<open>nil\<close>, one of the three dynamic types that \<open>Write\<close>
  stores itself, or any other dynamic value (of a type left open).
\<close>

datatype 'o iface = Nil | GoString string | GoInt64 int64 | GoBool bool | Other 'o

record 'o Field =
  Key :: string
  Type :: FieldType
  Integer :: int64
  String :: string
  Interface :: "'o iface"

text \<open>The \<open>switch field.Type\<close> of \<open>Write\<close>: the value stored under \<open>field.Key\<close>.\<close>

definition fieldValue :: "'o Field \<Rightarrow> 'o iface" where
  "fieldValue field =
     (case Type field of
        StringType \<Rightarrow> GoString (String field)
      | Int64Type \<Rightarrow> GoInt64 (Integer field)
      | Int32Type \<Rightarrow> GoInt64 (Integer field)
      | Uint32Type \<Rightarrow> GoInt64 (Integer field)
      | Uint64Type \<Rightarrow> GoInt64 (Integer field)
      | BoolType \<Rightarrow> GoBool (Integer field = 1)
      | _ \<Rightarrow> Interface field)"

text \<open>
  \<^verbatim>\<open>fieldsMap := make(map[string]interface{}); for _, field := range fields { ... }\<close>
  The loop over the fields, from the map built so far.
\<close>

fun fieldsMap_loop ::
  "'o Field list \<Rightarrow> (string \<rightharpoonup> 'o iface) \<Rightarrow> (string \<rightharpoonup> 'o iface)" where
  "fieldsMap_loop [] m = m"
| "fieldsMap_loop (field # flds) m = fieldsMap_loop flds (m(Key field \<mapsto> fieldValue field))"

definition fieldsMap :: "'o Field list \<Rightarrow> (string \<rightharpoonup> 'o iface)" where
  "fieldsMap flds = fieldsMap_loop flds Map.empty"

text \<open>The integer field types of zapcore: every signed and unsigned width.\<close>

definition isIntegerType :: "FieldType \<Rightarrow> bool" where
  "isIntegerType t =
     (t = Int64Type \<or> t = Int32Type \<or> t = Int16Type \<or> t = Int8Type \<or>
      t = Uint64Type \<or> t = Uint32Type \<or> t = Uint16Type \<or> t = Uint8Type)"

subsection \<open>The world outside the process\<close>

text \<open>Go's \<open>error\<close> values, as their messages.\<close>

datatype error = Error string

text \<open>The request and response structures of the CloudWatch Logs client that are used.\<close>

record DescribeLogGroupsInput =
  LogGroupNamePrefix :: string
  Limit :: int64

record LogGroup =
  lg_LogGroupName :: string

record DescribeLogGroupsOutput =
  LogGroups :: "LogGroup list"

record CreateLogGroupInput =
  clg_LogGroupName :: string

record DescribeLogStreamsInput =
  dls_LogGroupName :: string
  LogStreamNamePrefix :: string

record LogStream =
  ls_LogStreamName :: string
  UploadSequenceToken :: "string option"

record DescribeLogStreamsOutput =
  LogStreams :: "LogStream list"

record CreateLogStreamInput =
  cls_LogGroupName :: string
  cls_LogStreamName :: string

record InputLogEvent =
  ev_Message :: string
  Timestamp :: int64

record PutLogEventsInput =
  LogEvents :: "InputLogEvent list"
  LogGroupName :: string
  LogStreamName :: string
  SequenceToken :: "string option"

record PutLogEventsOutput =
  NextSequenceToken :: "string option"

text \<open>
  The client \<open>ch.svc\<close>, built by \<open>cloudwatchlogs.New(session.New(ch.AWSConfig))\<close>: five
  operations on a remote state \<open>'w\<close> about which nothing is assumed. The outputs of the
  two create operations are discarded by the code.
\<close>

record 'w CloudWatchLogs =
  DescribeLogGroups :: "DescribeLogGroupsInput \<Rightarrow> 'w \<Rightarrow> (error + DescribeLogGroupsOutput) \<times> 'w"
  CreateLogGroup :: "CreateLogGroupInput \<Rightarrow> 'w \<Rightarrow> error option \<times> 'w"
  DescribeLogStreams :: "DescribeLogStreamsInput \<Rightarrow> 'w \<Rightarrow> (error + DescribeLogStreamsOutput) \<times> 'w"
  CreateLogStream :: "CreateLogStreamInput \<Rightarrow> 'w \<Rightarrow> error option \<times> 'w"
  PutLogEvents :: "PutLogEventsInput \<Rightarrow> 'w \<Rightarrow> (error + PutLogEventsOutput) \<times> 'w"

text \<open>
  The wrapped zapcore.Core, as far as \<open>PikaCore\<close> calls it: \<open>Enabled\<close> (promoted through
  the embedding) and \<open>Write\<close>.
\<close>

record ('o, 'w) Core =
  Enabled :: "Level \<Rightarrow> bool"
  Write :: "Entry \<Rightarrow> 'o Field list \<Rightarrow> 'w \<Rightarrow> error option \<times> 'w"

record ('o, 'w) PikaCore =
  Core :: "('o, 'w) Core"

text \<open>Every call that leaves the package, in the order made.\<close>

datatype 'o event =
    DescribeLogGroupsEv DescribeLogGroupsInput
  | CreateLogGroupEv CreateLogGroupInput
  | DescribeLogStreamsEv DescribeLogStreamsInput
  | CreateLogStreamEv CreateLogStreamInput
  | PutLogEventsEv PutLogEventsInput "error + PutLogEventsOutput"
  | CoreWriteEv Entry "'o Field list"

text \<open>
  The state shared by the package's functions: the package-level queue \<open>msgCache\<close>, the
  outside world, the calls made so far, and the requests handed to goroutines started by
  \<open>go ch.sendEvent(params)\<close> that have not run yet.
\<close>

record ('o, 'w) state =
  msgCache :: EntryQueue
  world :: 'w
  trace :: "'o event list"
  spawned :: "PutLogEventsInput list"

subsection \<open>PikaCore\<close>

text \<open>
  \<open>json.Marshal\<close> on the field map is a parameter \<open>marshal\<close>: it returns the bytes or an
  error (a value it cannot encode). \<open>fmt.Sprintf("%s %s", a, b)\<close> is \<open>a @ '' '' @ b\<close>.
\<close>

type_synonym 'o marshal = "(string \<rightharpoonup> 'o iface) \<Rightarrow> error + string"

definition PikaCore_Write ::
  "'o marshal \<Rightarrow> ('o, 'w) PikaCore \<Rightarrow> Entry \<Rightarrow> 'o Field list \<Rightarrow> ('o, 'w) state
     \<Rightarrow> error option \<times> ('o, 'w) state" where
  "PikaCore_Write marshal c entry flds s =
     (case marshal (fieldsMap flds) of
        Inl err \<Rightarrow> (Some err, s)
      | Inr fieldsJson \<Rightarrow>
          (let entry' = entry\<lparr>Message := Message entry @ '' '' @ fieldsJson\<rparr>;
               s1 = s\<lparr>msgCache := Push entry' (msgCache s)\<rparr>;
               (r, w') = Write (Core c) entry' flds (world s1)
           in (r, s1\<lparr>world := w', trace := trace s1 @ [CoreWriteEv entry' flds]\<rparr>)))"

text \<open>
  zapcore.CheckedEntry, as zap v1.24.0 defines it (zapcore/entry.go): the entry and the
  cores that accepted it. \<open>AddCore\<close> on a nil pointer makes a new checked entry;
  \<open>CheckedEntry.Write\<close> calls \<open>Write\<close> of every registered core with the entry and the
  fields. A registered core is its \<open>Write\<close> method.
\<close>

type_synonym ('o, 'w) core_write =
  "Entry \<Rightarrow> 'o Field list \<Rightarrow> ('o, 'w) state \<Rightarrow> error option \<times> ('o, 'w) state"

record ('o, 'w) CheckedEntry =
  ce_Entry :: Entry
  cores :: "('o, 'w) core_write list"

definition AddCore ::
  "Entry \<Rightarrow> ('o, 'w) core_write \<Rightarrow> ('o, 'w) CheckedEntry option \<Rightarrow> ('o, 'w) CheckedEntry option" where
  "AddCore ent core ce =
     (case ce of
        None \<Rightarrow> Some \<lparr>ce_Entry = ent, cores = [core]\<rparr>
      | Some c \<Rightarrow> Some (c\<lparr>cores := cores c @ [core]\<rparr>))"

fun CheckedEntry_Write_loop ::
  "('o, 'w) core_write list \<Rightarrow> Entry \<Rightarrow> 'o Field list \<Rightarrow> ('o, 'w) state \<Rightarrow> ('o, 'w) state" where
  "CheckedEntry_Write_loop [] ent flds s = s"
| "CheckedEntry_Write_loop (core # rest) ent flds s =
     CheckedEntry_Write_loop rest ent flds (snd (core ent flds s))"

definition CheckedEntry_Write ::
  "('o, 'w) CheckedEntry option \<Rightarrow> 'o Field list \<Rightarrow> ('o, 'w) state \<Rightarrow> ('o, 'w) state" where
  "CheckedEntry_Write ce flds s =
     (case ce of None \<Rightarrow> s | Some c \<Rightarrow> CheckedEntry_Write_loop (cores c) (ce_Entry c) flds s)"

text \<open>
  \<^verbatim>\<open>if c.Enabled(entry.Level) { return checked.AddCore(entry, c) }; return checked\<close>
\<close>

definition PikaCore_Check ::
  "'o marshal \<Rightarrow> ('o, 'w) PikaCore \<Rightarrow> Entry \<Rightarrow> ('o, 'w) CheckedEntry option
     \<Rightarrow> ('o, 'w) CheckedEntry option" where
  "PikaCore_Check marshal c entry checked =
     (if Enabled (Core c) (Level entry)
      then AddCore entry (PikaCore_Write marshal c) checked
      else checked)"

text \<open>
  One log call on a logger whose core is \<open>c\<close>, as zap's Logger runs it: \<open>Check\<close> from
  a nil checked entry, then \<open>Write\<close> of the checked entry if it is not nil.
\<close>

definition logThrough ::
  "'o marshal \<Rightarrow> ('o, 'w) PikaCore \<Rightarrow> Entry \<Rightarrow> 'o Field list \<Rightarrow> ('o, 'w) state \<Rightarrow> ('o, 'w) state" where
  "logThrough marshal c entry flds s =
     CheckedEntry_Write (PikaCore_Check marshal c entry None) flds s"

subsection \<open>CloudwatchHook\<close>

text \<open>
  The struct, without the fields that hold no data of the model: \<open>AWSConfig\<close> is only
  passed to \<open>session.New\<close>, \<open>svc\<close> is the client (a parameter \<open>svc\<close> of the functions
  below), and \<open>m\<close> is the mutex that makes \<open>sendEvent\<close> one atomic step. A nil slice
  and a nil \<open>*string\<close> are \<open>None\<close>.
\<close>

record CloudwatchHook =
  AcceptedLevels :: "Level list option"
  GroupName :: string
  StreamName :: string
  nextSequenceToken :: "string option"
  Async :: bool

text \<open>
  \<open>NewCloudwatchHook\<close>: the composite literal leaves \<open>nextSequenceToken\<close> at its zero
  value \<open>nil\<close>. \<open>LevelThreshold\<close> never returns a nil slice.
\<close>

definition NewCloudwatchHook :: "string \<Rightarrow> string \<Rightarrow> bool \<Rightarrow> Level \<Rightarrow> CloudwatchHook" where
  "NewCloudwatchHook groupName streamName isAsync level =
     \<lparr>AcceptedLevels = Some (LevelThreshold level),
      GroupName = groupName,
      StreamName = streamName,
      nextSequenceToken = None,
      Async = isAsync\<rparr>"

definition Levels :: "CloudwatchHook \<Rightarrow> Level list" where
  "Levels ch = (case AcceptedLevels ch of None \<Rightarrow> AllLevels | Some lvs \<Rightarrow> lvs)"

text \<open>\<^verbatim>\<open>for _, lv := range ch.Levels() { if lv == level { return true } }; return false\<close>\<close>

fun isAcceptedLevel_loop :: "Level list \<Rightarrow> Level \<Rightarrow> bool" where
  "isAcceptedLevel_loop [] level = False"
| "isAcceptedLevel_loop (lv # lvs) level = (if lv = level then True else isAcceptedLevel_loop lvs level)"

definition isAcceptedLevel :: "CloudwatchHook \<Rightarrow> Level \<Rightarrow> bool" where
  "isAcceptedLevel ch level = isAcceptedLevel_loop (Levels ch) level"

text \<open>
  \<open>sendEvent\<close>, under the hook's mutex: one \<open>PutLogEvents\<close> call; an error is returned
  as it is, a response overwrites \<open>nextSequenceToken\<close>.
\<close>

definition sendEvent ::
  "'w CloudWatchLogs \<Rightarrow> PutLogEventsInput \<Rightarrow> CloudwatchHook \<times> ('o, 'w) state
     \<Rightarrow> error option \<times> CloudwatchHook \<times> ('o, 'w) state" where
  "sendEvent svc params = (\<lambda>(ch, s).
     (let (r, w') = PutLogEvents svc params (world s);
          s' = s\<lparr>world := w', trace := trace s @ [PutLogEventsEv params r]\<rparr>
      in case r of
           Inl err \<Rightarrow> (Some err, ch, s')
         | Inr resp \<Rightarrow> (None, ch\<lparr>nextSequenceToken := NextSequenceToken resp\<rparr>, s')))"

text \<open>
  Go's \<open>/\<close> on int64: the quotient truncated towards zero, wrapped to 64 bits. The only
  divisor in the package is the constant \<open>int64(time.Millisecond)\<close>, so the
  division-by-zero panic is not a branch.
\<close>

definition int64_div :: "int64 \<Rightarrow> int64 \<Rightarrow> int64" where
  "int64_div a b = word_of_int (sint a sdiv sint b)"

text \<open>
  The closure \<open>cloudwatchWriter\<close> of \<open>GetHook\<close>. \<open>mkParams\<close> is the value of its
  variable \<open>params\<close> (with \<open>event\<close> inside) for the entry that is sent. \<open>now\<close> is the
  value of \<open>time.Now().UnixNano()\<close> read at the call; \<open>int64(time.Nanosecond)\<close> is 1
  and \<open>int64(time.Millisecond)\<close> is 1000000. With \<open>Async\<close> set the request is handed
  to a new goroutine and nil is returned at once.
\<close>

definition mkParams :: "CloudwatchHook \<Rightarrow> Entry \<Rightarrow> int64 \<Rightarrow> PutLogEventsInput" where
  "mkParams ch e now =
     (let event = \<lparr>ev_Message = ''['' @ LoggerName e @ ''] '' @ Message e,
                   Timestamp = int64_div (1 * now) 1000000\<rparr>
      in \<lparr>LogEvents = [event],
          LogGroupName = GroupName ch,
          LogStreamName = StreamName ch,
          SequenceToken = nextSequenceToken ch\<rparr>)"

definition cloudwatchWriter ::
  "'w CloudWatchLogs \<Rightarrow> int64 \<Rightarrow> Entry \<Rightarrow> CloudwatchHook \<times> ('o, 'w) state
     \<Rightarrow> error option \<times> CloudwatchHook \<times> ('o, 'w) state" where
  "cloudwatchWriter svc now e = (\<lambda>(ch, s).
     if \<not> isAcceptedLevel ch (Level e) then (None, ch, s)
     else
       (let (modifiedEntry, q') = Pop (msgCache s);
            s1 = s\<lparr>msgCache := q'\<rparr>;
            e' = (case modifiedEntry of None \<Rightarrow> e | Some m \<Rightarrow> m);
            params = mkParams ch e' now
        in if Async ch then (None, ch, s1\<lparr>spawned := spawned s1 @ [params]\<rparr>)
           else sendEvent svc params (ch, s1)))"

text \<open>
  A started goroutine running: the \<open>i\<close>-th waiting request is sent by \<open>sendEvent\<close>,
  whose result nobody reads.
\<close>

definition runSpawned ::
  "'w CloudWatchLogs \<Rightarrow> nat \<Rightarrow> CloudwatchHook \<times> ('o, 'w) state \<Rightarrow> CloudwatchHook \<times> ('o, 'w) state" where
  "runSpawned svc i = (\<lambda>(ch, s).
     if i < length (spawned s)
     then snd (sendEvent svc (spawned s ! i)
                 (ch, s\<lparr>spawned := take i (spawned s) @ drop (Suc i) (spawned s)\<rparr>))
     else (ch, s))"

text \<open>Appends run one after the other, each by \<open>sendEvent\<close>; the results in order.\<close>

fun sendEvents ::
  "'w CloudWatchLogs \<Rightarrow> PutLogEventsInput list \<Rightarrow> CloudwatchHook \<times> ('o, 'w) state
     \<Rightarrow> error option list \<times> CloudwatchHook \<times> ('o, 'w) state" where
  "sendEvents svc [] cs = ([], cs)"
| "sendEvents svc (p # ps) cs =
     (case sendEvent svc p cs of (r, cs') \<Rightarrow>
        (case sendEvents svc ps cs' of (rs, cs'') \<Rightarrow> (r # rs, cs'')))"

text \<open>The service calls of \<open>GetHook\<close>, each recorded in the trace.\<close>

definition call_DescribeLogGroups ::
  "'w CloudWatchLogs \<Rightarrow> DescribeLogGroupsInput \<Rightarrow> ('o, 'w) state
     \<Rightarrow> (error + DescribeLogGroupsOutput) \<times> ('o, 'w) state" where
  "call_DescribeLogGroups svc inp s =
     (let (r, w') = DescribeLogGroups svc inp (world s)
      in (r, s\<lparr>world := w', trace := trace s @ [DescribeLogGroupsEv inp]\<rparr>))"

definition call_CreateLogGroup ::
  "'w CloudWatchLogs \<Rightarrow> CreateLogGroupInput \<Rightarrow> ('o, 'w) state \<Rightarrow> error option \<times> ('o, 'w) state" where
  "call_CreateLogGroup svc inp s =
     (let (r, w') = CreateLogGroup svc inp (world s)
      in (r, s\<lparr>world := w', trace := trace s @ [CreateLogGroupEv inp]\<rparr>))"

definition call_DescribeLogStreams ::
  "'w CloudWatchLogs \<Rightarrow> DescribeLogStreamsInput \<Rightarrow> ('o, 'w) state
     \<Rightarrow> (error + DescribeLogStreamsOutput) \<times> ('o, 'w) state" where
  "call_DescribeLogStreams svc inp s =
     (let (r, w') = DescribeLogStreams svc inp (world s)
      in (r, s\<lparr>world := w', trace := trace s @ [DescribeLogStreamsEv inp]\<rparr>))"

definition call_CreateLogStream ::
  "'w CloudWatchLogs \<Rightarrow> CreateLogStreamInput \<Rightarrow> ('o, 'w) state \<Rightarrow> error option \<times> ('o, 'w) state" where
  "call_CreateLogStream svc inp s =
     (let (r, w') = CreateLogStream svc inp (world s)
      in (r, s\<lparr>world := w', trace := trace s @ [CreateLogStreamEv inp]\<rparr>))"

text \<open>
  \<open>GetHook\<close>. The result is the error (\<open>Inl\<close>, the returned callback is nil) or the
  callback \<open>cloudwatchWriter\<close>; the callback reads and writes the hook through the
  pointer \<open>ch\<close>, here the hook it is given at each call.
\<close>

type_synonym ('o, 'w) hookfn =
  "int64 \<Rightarrow> Entry \<Rightarrow> CloudwatchHook \<times> ('o, 'w) state \<Rightarrow> error option \<times> CloudwatchHook \<times> ('o, 'w) state"

definition GetHook ::
  "'w CloudWatchLogs \<Rightarrow> CloudwatchHook \<times> ('o, 'w) state
     \<Rightarrow> (error + ('o, 'w) hookfn) \<times> CloudwatchHook \<times> ('o, 'w) state" where
  "GetHook svc = (\<lambda>(ch, s).
     case call_DescribeLogGroups svc
            \<lparr>LogGroupNamePrefix = GroupName ch, Limit = 1\<rparr> s of
       (Inl err, s1) \<Rightarrow> (Inl err, ch, s1)
     | (Inr lgresp, s1) \<Rightarrow>
         (case (if length (LogGroups lgresp) < 1
                then call_CreateLogGroup svc \<lparr>clg_LogGroupName = GroupName ch\<rparr> s1
                else (None, s1)) of
            (Some err, s2) \<Rightarrow> (Inl err, ch, s2)
          | (None, s2) \<Rightarrow>
              (case call_DescribeLogStreams svc
                      \<lparr>dls_LogGroupName = GroupName ch, LogStreamNamePrefix = StreamName ch\<rparr> s2 of
                 (Inl err, s3) \<Rightarrow> (Inl err, ch, s3)
               | (Inr resp, s3) \<Rightarrow>
                   if length (LogStreams resp) > 0
                   then (Inr (cloudwatchWriter svc),
                         ch\<lparr>nextSequenceToken := UploadSequenceToken (LogStreams resp ! 0)\<rparr>, s3)
                   else
                     (case call_CreateLogStream svc
                             \<lparr>cls_LogGroupName = GroupName ch, cls_LogStreamName = StreamName ch\<rparr> s3 of
                        (Some err, s4) \<Rightarrow> (Inl err, ch, s4)
                      | (None, s4) \<Rightarrow> (Inr (cloudwatchWriter svc), ch, s4)))))"

subsection \<open>Concrete inputs for the examples\<close>

text \<open>
  A service that answers from a script: the four set-up operations return fixed results,
  \<open>PutLogEvents\<close> answers by the number of calls made before. The remote state is that
  number.
\<close>

definition scriptedSvc ::
  "(error + DescribeLogGroupsOutput) \<Rightarrow> error option \<Rightarrow> (error + DescribeLogStreamsOutput)
     \<Rightarrow> error option \<Rightarrow> (nat \<Rightarrow> error + PutLogEventsOutput) \<Rightarrow> nat CloudWatchLogs" where
  "scriptedSvc groups cgroup streams cstream put =
     \<lparr>DescribeLogGroups = (\<lambda>inp w. (groups, Suc w)),
      CreateLogGroup = (\<lambda>inp w. (cgroup, Suc w)),
      DescribeLogStreams = (\<lambda>inp w. (streams, Suc w)),
      CreateLogStream = (\<lambda>inp w. (cstream, Suc w)),
      PutLogEvents = (\<lambda>inp w. (put w, Suc w))\<rparr>"

definition entryAt :: "Level \<Rightarrow> string \<Rightarrow> string \<Rightarrow> Entry" where
  "entryAt l name msg =
     \<lparr>Level = l, Time = 0, LoggerName = name, Message = msg, Caller = [], Stack = []\<rparr>"

definition startState :: "EntryQueue \<Rightarrow> (unit, nat) state" where
  "startState q = \<lparr>msgCache = q, world = 0, trace = [], spawned = []\<rparr>"

text \<open>A wrapped core that accepts levels from \<open>InfoLevel\<close> up and counts its writes.\<close>

definition countingCore :: "(unit, nat) Core" where
  "countingCore =
     \<lparr>Enabled = (\<lambda>l. sint InfoLevel \<le> sint l), Write = (\<lambda>ent flds w. (None, Suc w))\<rparr>"

text \<open>
  A marshaller for the examples: like \<open>json.Marshal\<close> it fails on a value it cannot
  encode, here a channel stored under the key \<open>ch\<close>; otherwise it returns \<open>{}\<close>.
\<close>

definition chanMarshal :: "unit marshal" where
  "chanMarshal m =
     (if m ''ch'' = Some (Other ()) then Inl (Error ''json: unsupported type: chan int'')
      else Inr ''{}'')"

text \<open>
  Answers of the scripted service: no group or one group, no stream or one stream that
  holds the token \<open>tok\<close>, and appends that succeed with a token naming the number of
  calls made so far.
\<close>

definition noGroups :: "error + DescribeLogGroupsOutput" where
  "noGroups = Inr \<lparr>LogGroups = []\<rparr>"

definition oneGroup :: "error + DescribeLogGroupsOutput" where
  "oneGroup = Inr \<lparr>LogGroups = [\<lparr>lg_LogGroupName = ''g''\<rparr>]\<rparr>"

definition noStreams :: "error + DescribeLogStreamsOutput" where
  "noStreams = Inr \<lparr>LogStreams = []\<rparr>"

definition oneStream :: "error + DescribeLogStreamsOutput" where
  "oneStream = Inr \<lparr>LogStreams = [\<lparr>ls_LogStreamName = ''s'', UploadSequenceToken = Some ''tok''\<rparr>]\<rparr>"

definition putOk :: "nat \<Rightarrow> error + PutLogEventsOutput" where
  "putOk n = Inr \<lparr>NextSequenceToken = Some (replicate (Suc n) CHR ''t'')\<rparr>"

definition putFail :: "nat \<Rightarrow> error + PutLogEventsOutput" where
  "putFail n = Inl (Error ''InvalidSequenceTokenException'')"

definition hook0 :: CloudwatchHook where
  "hook0 = NewCloudwatchHook ''g'' ''s'' False InfoLevel"

text \<open>
  The state in which \<open>GetHook\<close> leaves \<open>startState q\<close> when it had to create the
  group \<open>g\<close> and the stream \<open>s\<close>.
\<close>

definition createdState :: "EntryQueue \<Rightarrow> (unit, nat) state" where
  "createdState q =
     \<lparr>msgCache = q, world = 4,
      trace = [DescribeLogGroupsEv \<lparr>LogGroupNamePrefix = ''g'', Limit = 1\<rparr>,
               CreateLogGroupEv \<lparr>clg_LogGroupName = ''g''\<rparr>,
               DescribeLogStreamsEv \<lparr>dls_LogGroupName = ''g'', LogStreamNamePrefix = ''s''\<rparr>,
               CreateLogStreamEv \<lparr>cls_LogGroupName = ''g'', cls_LogStreamName = ''s''\<rparr>],
      spawned = []\<rparr>"

text \<open>A request with one event, and the hook of the examples holding a token.\<close>

definition reqWith :: "string \<Rightarrow> int64 \<Rightarrow> string option \<Rightarrow> PutLogEventsInput" where
  "reqWith msg ts tok =
     \<lparr>LogEvents = [\<lparr>ev_Message = msg, Timestamp = ts\<rparr>],
      LogGroupName = ''g'', LogStreamName = ''s'', SequenceToken = tok\<rparr>"

definition hookWith :: "string option \<Rightarrow> CloudwatchHook" where
  "hookWith tok = hook0\<lparr>nextSequenceToken := tok\<rparr>"

text \<open>The same hook with \<open>Async\<close> set.\<close>

definition asyncHook :: "string option \<Rightarrow> CloudwatchHook" where
  "asyncHook tok = (hookWith tok)\<lparr>Async := True\<rparr>"

text \<open>The state after two appends on the scripted service from \<open>startState []\<close>.\<close>

definition twoSent :: "(unit, nat) state" where
  "twoSent =
     \<lparr>msgCache = [], world = 2,
      trace = [PutLogEventsEv (reqWith ''[svc] one'' 1 (Some ''tok''))
                 (Inr \<lparr>NextSequenceToken = Some ''t''\<rparr>),
               PutLogEventsEv (reqWith ''[svc] two'' 2 (Some ''t''))
                 (Inr \<lparr>NextSequenceToken = Some ''tt''\<rparr>)],
      spawned = []\<rparr>"

section \<open>Properties\<close>

subsection \<open>Shared lemmas\<close>

lemmas level_defs =
  DebugLevel_def InfoLevel_def WarnLevel_def ErrorLevel_def DPanicLevel_def
  PanicLevel_def FatalLevel_def

text \<open>The index loop of \<open>LevelThreshold\<close> returns the suffix at the first match.\<close>

lemma LevelThreshold_from_dropWhile:
  "LevelThreshold_from i l = dropWhile (\<lambda>x. x \<noteq> l) (drop i AllLevels)"
proof (induction i l rule: LevelThreshold_from.induct)
  case (1 i l)
  show ?case
  proof (cases "i < length AllLevels")
    case True
    then have d: "drop i AllLevels = AllLevels ! i # drop (Suc i) AllLevels"
      by (simp add: Cons_nth_drop_Suc)
    show ?thesis
    proof (cases "AllLevels ! i = l")
      case True
      with \<open>i < length AllLevels\<close> d show ?thesis
        by (subst LevelThreshold_from.simps) simp
    next
      case False
      with \<open>i < length AllLevels\<close> d "1.IH" show ?thesis
        by (subst LevelThreshold_from.simps) simp
    qed
  next
    case False
    then show ?thesis
      by (subst LevelThreshold_from.simps) simp
  qed
qed

lemma LevelThreshold_dropWhile: "LevelThreshold l = dropWhile (\<lambda>x. x \<noteq> l) AllLevels"
  by (simp add: LevelThreshold_def LevelThreshold_from_dropWhile)

lemma LevelThreshold_absent: "l \<notin> set AllLevels \<Longrightarrow> LevelThreshold l = []"
  by (auto simp: LevelThreshold_dropWhile)

lemma isAcceptedLevel_loop_set: "isAcceptedLevel_loop lvs level \<longleftrightarrow> level \<in> set lvs"
  by (induction lvs) auto

lemma isAcceptedLevel_set: "isAcceptedLevel ch level \<longleftrightarrow> level \<in> set (Levels ch)"
  by (simp add: isAcceptedLevel_def isAcceptedLevel_loop_set)

lemma pushes_append: "pushes ps q = q @ ps"
  by (induction ps arbitrary: q) (auto simp: Push_def)

lemma pops_all: "pops (length q) q = (map Some q, [])"
  by (induction q) (auto simp: Pop_def)

lemma pops_add:
  "pops (k + j) q =
     (case pops k q of (rs, q') \<Rightarrow> (case pops j q' of (rs', q'') \<Rightarrow> (rs @ rs', q'')))"
  by (induction k arbitrary: q) (auto split: prod.splits)

lemma sendEvent_ok:
  "PutLogEvents svc p (world s) = (Inr resp, w') \<Longrightarrow>
   sendEvent svc p (ch, s) =
     (None, ch\<lparr>nextSequenceToken := NextSequenceToken resp\<rparr>,
      s\<lparr>world := w', trace := trace s @ [PutLogEventsEv p (Inr resp)]\<rparr>)"
  by (simp add: sendEvent_def)

lemma sendEvent_err:
  "PutLogEvents svc p (world s) = (Inl err, w') \<Longrightarrow>
   sendEvent svc p (ch, s) =
     (Some err, ch, s\<lparr>world := w', trace := trace s @ [PutLogEventsEv p (Inl err)]\<rparr>)"
  by (simp add: sendEvent_def)

lemma sendEvent_result:
  assumes "sendEvent svc p (ch, s) = (r, ch', s')"
  shows "(\<exists>err. r = Some err \<and> ch' = ch \<and> trace s' = trace s @ [PutLogEventsEv p (Inl err)])
       \<or> (\<exists>resp. r = None \<and> ch' = ch\<lparr>nextSequenceToken := NextSequenceToken resp\<rparr>
              \<and> trace s' = trace s @ [PutLogEventsEv p (Inr resp)])"
proof -
  obtain out w' where pe: "PutLogEvents svc p (world s) = (out, w')"
    by (cases "PutLogEvents svc p (world s)") auto
  show ?thesis
  proof (cases out)
    case (Inl err)
    with pe assms sendEvent_err [of svc p s err w' ch] show ?thesis by auto
  next
    case (Inr resp)
    with pe assms sendEvent_ok [of svc p s resp w' ch] show ?thesis by auto
  qed
qed

lemma sendEvent_frame:
  "sendEvent svc p (ch, s) = (r, ch', s') \<Longrightarrow>
   spawned s' = spawned s \<and> msgCache s' = msgCache s
   \<and> world s' = snd (PutLogEvents svc p (world s))
   \<and> AcceptedLevels ch' = AcceptedLevels ch \<and> GroupName ch' = GroupName ch
   \<and> StreamName ch' = StreamName ch \<and> Async ch' = Async ch"
  by (auto simp: sendEvent_def Let_def split: prod.splits sum.splits)

text \<open>After a non-empty run of appends that all succeed, the hook holds the last token.\<close>

lemma sendEvents_last:
  "ps \<noteq> [] \<Longrightarrow> sendEvents svc ps (ch, s) = (rs, chN, sN) \<Longrightarrow> \<forall>r\<in>set rs. r = None \<Longrightarrow>
   \<exists>resp. last (trace sN) = PutLogEventsEv (last ps) (Inr resp)
         \<and> nextSequenceToken chN = NextSequenceToken resp"
proof (induction ps arbitrary: ch s rs chN sN)
  case Nil
  then show ?case by simp
next
  case (Cons p ps)
  obtain r ch1 s1 where se: "sendEvent svc p (ch, s) = (r, ch1, s1)"
    by (cases "sendEvent svc p (ch, s)") auto
  obtain rs' ch2 s2 where ses: "sendEvents svc ps (ch1, s1) = (rs', ch2, s2)"
    by (cases "sendEvents svc ps (ch1, s1)") auto
  from Cons.prems(2) se ses have eqs: "rs = r # rs'" "chN = ch2" "sN = s2"
    by auto
  show ?case
  proof (cases "ps = []")
    case True
    with ses have "ch2 = ch1" "s2 = s1" by auto
    moreover from eqs Cons.prems(3) have "r = None" by simp
    ultimately show ?thesis
      using sendEvent_result [OF se] eqs True by auto
  next
    case False
    from eqs Cons.prems(3) have "\<forall>r\<in>set rs'. r = None" by simp
    from Cons.IH [OF False ses this] eqs False show ?thesis by simp
  qed
qed

text \<open>The callback on an accepted level, with the pop written out.\<close>

lemma cloudwatchWriter_accepted:
  "isAcceptedLevel ch (Level e) \<Longrightarrow>
   cloudwatchWriter svc now e (ch, s) =
     (let req = mkParams ch (case msgCache s of [] \<Rightarrow> e | m # q \<Rightarrow> m) now;
          s1 = s\<lparr>msgCache := drop 1 (msgCache s)\<rparr>
      in if Async ch then (None, ch, s1\<lparr>spawned := spawned s1 @ [req]\<rparr>)
         else sendEvent svc req (ch, s1))"
  by (cases "msgCache s") (simp_all add: cloudwatchWriter_def Pop_def Let_def)

lemma cloudwatchWriter_rejected:
  "\<not> isAcceptedLevel ch (Level e) \<Longrightarrow> cloudwatchWriter svc now e (ch, s) = (None, ch, s)"
  by (simp add: cloudwatchWriter_def)

text \<open>Go's truncating division by the constant 1000000, on the signed values.\<close>

lemma sdiv_million:
  "(k::int) sdiv 1000000 = (if 0 \<le> k then k div 1000000 else - ((- k) div 1000000))"
  by (simp add: signed_divide_int_def sgn_if)

lemma div_million_decomp:
  fixes k :: int
  shows "k = 1000000 * (k div 1000000) + k mod 1000000 \<and> 0 \<le> k mod 1000000 \<and> k mod 1000000 < 1000000"
  by simp

lemma div_million_bounds:
  fixes k :: int
  assumes "0 \<le> k"
  shows "0 \<le> k div 1000000 \<and> k div 1000000 \<le> k"
proof -
  have q: "0 \<le> k div 1000000"
    using assms by (simp add: pos_imp_zdiv_nonneg_iff)
  moreover have "k div 1000000 \<le> k"
    using div_million_decomp [of k] q by linarith
  ultimately show ?thesis by simp
qed

lemma int64_div_sint:
  "sint (int64_div now 1000000) = sint now sdiv 1000000"
proof -
  have b: "- (2 ^ 63) \<le> sint now" "sint now < 2 ^ 63"
    using sint_ge [of now] sint_lt [of now] by simp_all
  have m: "sint (1000000 :: int64) = 1000000"
    by simp
  have "- (2 ^ 63) \<le> sint now sdiv 1000000 \<and> sint now sdiv 1000000 < 2 ^ 63"
  proof (cases "0 \<le> sint now")
    case True
    with div_million_bounds [of "sint now"] b show ?thesis
      by (simp add: sdiv_million)
  next
    case False
    with div_million_bounds [of "- sint now"] b show ?thesis
      by (simp add: sdiv_million)
  qed
  then show ?thesis
    by (simp add: int64_div_def m sint_sbintrunc' signed_take_bit_int_eq_self)
qed

lemma int64_div_nonneg:
  assumes "0 \<le> sint now"
  shows "sint (int64_div now 1000000) * 1000000 \<le> sint now \<and>
         sint now < (sint (int64_div now 1000000) + 1) * 1000000"
proof -
  define q where "q = sint now div 1000000"
  define r where "r = sint now mod 1000000"
  have k: "sint now = 1000000 * q + r" and r0: "0 \<le> r" and r1: "r < 1000000"
    by (simp_all add: q_def r_def)
  have e: "sint (int64_div now 1000000) = q"
    using assms by (simp add: int64_div_sint sdiv_million q_def)
  have "q * 1000000 \<le> sint now"
    using k r0 by (simp add: algebra_simps)
  moreover have "sint now < (q + 1) * 1000000"
    using k r1 by (simp add: algebra_simps)
  ultimately show ?thesis
    by (simp only: e)
qed

subsection \<open>The queue\<close>

text \<open>
  C3. Pushing \<open>P1..Pn\<close> onto an empty \<open>EntryQueue\<close> and then popping: the first \<open>n\<close> pops
  return \<open>P1..Pn\<close> in push order, each entry once and none missing, the pop after them
  returns nil, which is no error, and the queue is empty again.
\<close>

theorem queue_fifo:
  "pops (Suc (length ps)) (pushes ps []) = (map Some ps @ [None], [])"
  using pops_add [of "length ps" 1 ps]
  by (simp add: pushes_append pops_all Pop_def)

subsection \<open>Level filtering\<close>

text \<open>
  C6. For each of the six levels of \<open>AllLevels\<close>, \<open>LevelThreshold\<close> returns the part of
  the fixed sequence Debug, Info, Warn, Error, Fatal, Panic from that level to Panic, in
  that order; a hook whose \<open>AcceptedLevels\<close> is nil has \<open>Levels\<close> equal to \<open>AllLevels\<close>
  and accepts each of the six levels.
\<close>

theorem LevelThreshold_sublist:
  "LevelThreshold DebugLevel =
     [DebugLevel, InfoLevel, WarnLevel, ErrorLevel, FatalLevel, PanicLevel]
   \<and> LevelThreshold InfoLevel = [InfoLevel, WarnLevel, ErrorLevel, FatalLevel, PanicLevel]
   \<and> LevelThreshold WarnLevel = [WarnLevel, ErrorLevel, FatalLevel, PanicLevel]
   \<and> LevelThreshold ErrorLevel = [ErrorLevel, FatalLevel, PanicLevel]
   \<and> LevelThreshold FatalLevel = [FatalLevel, PanicLevel]
   \<and> LevelThreshold PanicLevel = [PanicLevel]
   \<and> (AcceptedLevels ch = None \<longrightarrow>
        Levels ch = AllLevels
        \<and> isAcceptedLevel ch DebugLevel \<and> isAcceptedLevel ch InfoLevel
        \<and> isAcceptedLevel ch WarnLevel \<and> isAcceptedLevel ch ErrorLevel
        \<and> isAcceptedLevel ch FatalLevel \<and> isAcceptedLevel ch PanicLevel)"
proof -
  have "LevelThreshold DebugLevel =
          [DebugLevel, InfoLevel, WarnLevel, ErrorLevel, FatalLevel, PanicLevel]"
    by (simp add: LevelThreshold_dropWhile AllLevels_def)
  moreover have "LevelThreshold InfoLevel =
          [InfoLevel, WarnLevel, ErrorLevel, FatalLevel, PanicLevel]"
    by (simp add: LevelThreshold_dropWhile AllLevels_def level_defs)
  moreover have "LevelThreshold WarnLevel = [WarnLevel, ErrorLevel, FatalLevel, PanicLevel]"
    by (simp add: LevelThreshold_dropWhile AllLevels_def level_defs)
  moreover have "LevelThreshold ErrorLevel = [ErrorLevel, FatalLevel, PanicLevel]"
    by (simp add: LevelThreshold_dropWhile AllLevels_def level_defs)
  moreover have "LevelThreshold FatalLevel = [FatalLevel, PanicLevel]"
    by (simp add: LevelThreshold_dropWhile AllLevels_def level_defs)
  moreover have "LevelThreshold PanicLevel = [PanicLevel]"
    by (simp add: LevelThreshold_dropWhile AllLevels_def level_defs)
  moreover have "Levels ch = AllLevels" if "AcceptedLevels ch = None"
    using that by (simp add: Levels_def)
  then have "AcceptedLevels ch = None \<longrightarrow>
        Levels ch = AllLevels
        \<and> isAcceptedLevel ch DebugLevel \<and> isAcceptedLevel ch InfoLevel
        \<and> isAcceptedLevel ch WarnLevel \<and> isAcceptedLevel ch ErrorLevel
        \<and> isAcceptedLevel ch FatalLevel \<and> isAcceptedLevel ch PanicLevel"
    by (simp add: isAcceptedLevel_set AllLevels_def)
  ultimately show ?thesis
    by (simp only: simp_thms)
qed

theorem LevelThreshold_sublist_witness:
  "AcceptedLevels \<lparr>AcceptedLevels = None, GroupName = ''g'', StreamName = ''s'',
                   nextSequenceToken = None, Async = False\<rparr> = None
   \<and> Levels \<lparr>AcceptedLevels = None, GroupName = ''g'', StreamName = ''s'',
              nextSequenceToken = None, Async = False\<rparr>
       = [DebugLevel, InfoLevel, WarnLevel, ErrorLevel, FatalLevel, PanicLevel]
   \<and> isAcceptedLevel \<lparr>AcceptedLevels = None, GroupName = ''g'', StreamName = ''s'',
                       nextSequenceToken = None, Async = False\<rparr> DebugLevel
   \<and> LevelThreshold ErrorLevel = [ErrorLevel, FatalLevel, PanicLevel]"
  using LevelThreshold_sublist
          [of "\<lparr>AcceptedLevels = None, GroupName = ''g'', StreamName = ''s'',
                nextSequenceToken = None, Async = False\<rparr>"]
  by (simp add: AllLevels_def)

text \<open>
  C8. An entry whose level is not in the hook's accepted levels: \<open>isAcceptedLevel\<close> is
  false and the callback returns nil with the hook and the whole state as they were, so
  the queue is not popped, no request is built, none is sent and none is handed to a
  goroutine.
\<close>

theorem rejected_level_no_action:
  assumes "Level e \<notin> set (Levels ch)"
  shows "\<not> isAcceptedLevel ch (Level e)
         \<and> cloudwatchWriter svc now e (ch, s) = (None, ch, s)"
  using assms by (simp add: isAcceptedLevel_set cloudwatchWriter_rejected)

theorem rejected_level_no_action_witness:
  "Level (entryAt DebugLevel ''svc'' ''start'')
     \<notin> set (Levels (NewCloudwatchHook ''g'' ''s'' False InfoLevel))
   \<and> cloudwatchWriter
        (scriptedSvc (Inl (Error ''x'')) None (Inl (Error ''x'')) None (\<lambda>n. Inl (Error ''x'')))
        1700000000000000000 (entryAt DebugLevel ''svc'' ''start'')
        (NewCloudwatchHook ''g'' ''s'' False InfoLevel,
         startState [entryAt DebugLevel ''svc'' ''start {}''])
      = (None, NewCloudwatchHook ''g'' ''s'' False InfoLevel,
         startState [entryAt DebugLevel ''svc'' ''start {}''])"
proof -
  have h: "Level (entryAt DebugLevel ''svc'' ''start'')
             \<notin> set (Levels (NewCloudwatchHook ''g'' ''s'' False InfoLevel))"
    by (simp add: entryAt_def Levels_def NewCloudwatchHook_def LevelThreshold_dropWhile
        AllLevels_def level_defs)
  show ?thesis
    using h rejected_level_no_action
        [OF h, where svc = "scriptedSvc (Inl (Error ''x'')) None (Inl (Error ''x'')) None
                              (\<lambda>n. Inl (Error ''x''))"
           and now = 1700000000000000000
           and s = "startState [entryAt DebugLevel ''svc'' ''start {}'']"]
    by simp
qed

text \<open>
  C10. A level that is not in \<open>AllLevels\<close> (zapcore.DPanicLevel is one): \<open>LevelThreshold\<close>
  returns the empty, non-nil list; the hook that \<open>NewCloudwatchHook\<close> builds with it has
  the empty list as its accepted levels, accepts no level, and its callback, whatever
  token the hook holds by then, returns nil and leaves the hook and the state as they
  were: no pop, no request sent or handed to a goroutine.
\<close>

theorem level_outside_AllLevels_accepts_nothing:
  assumes "l \<notin> set AllLevels"
  shows "LevelThreshold l = []
         \<and> AcceptedLevels (NewCloudwatchHook g st a l) = Some []
         \<and> \<not> isAcceptedLevel ((NewCloudwatchHook g st a l)\<lparr>nextSequenceToken := t\<rparr>) lv
         \<and> cloudwatchWriter svc now e ((NewCloudwatchHook g st a l)\<lparr>nextSequenceToken := t\<rparr>, s)
             = (None, (NewCloudwatchHook g st a l)\<lparr>nextSequenceToken := t\<rparr>, s)"
proof -
  have t: "LevelThreshold l = []"
    using assms by (rule LevelThreshold_absent)
  then have n: "\<not> isAcceptedLevel ((NewCloudwatchHook g st a l)\<lparr>nextSequenceToken := t\<rparr>) lv" for lv
    by (simp add: isAcceptedLevel_set Levels_def NewCloudwatchHook_def)
  from t n cloudwatchWriter_rejected [OF n] show ?thesis
    by (simp add: NewCloudwatchHook_def)
qed

theorem level_outside_AllLevels_accepts_nothing_witness:
  "DPanicLevel \<notin> set AllLevels
   \<and> LevelThreshold DPanicLevel = []
   \<and> AcceptedLevels (NewCloudwatchHook ''g'' ''s'' False DPanicLevel) = Some []
   \<and> cloudwatchWriter
        (scriptedSvc (Inl (Error ''x'')) None (Inl (Error ''x'')) None (\<lambda>n. Inl (Error ''x'')))
        1700000000000000000 (entryAt PanicLevel ''svc'' ''boom'')
        ((NewCloudwatchHook ''g'' ''s'' False DPanicLevel)\<lparr>nextSequenceToken := Some ''t1''\<rparr>,
         startState [entryAt PanicLevel ''svc'' ''boom {}''])
      = (None, (NewCloudwatchHook ''g'' ''s'' False DPanicLevel)\<lparr>nextSequenceToken := Some ''t1''\<rparr>,
         startState [entryAt PanicLevel ''svc'' ''boom {}''])"
proof -
  have h: "DPanicLevel \<notin> set AllLevels"
    by (simp add: AllLevels_def level_defs)
  show ?thesis
    using h level_outside_AllLevels_accepts_nothing
        [OF h, where svc = "scriptedSvc (Inl (Error ''x'')) None (Inl (Error ''x'')) None
                              (\<lambda>n. Inl (Error ''x''))"
           and now = 1700000000000000000 and e = "entryAt PanicLevel ''svc'' ''boom''"
           and g = "''g''" and st = "''s''" and a = False and t = "Some ''t1''"
           and s = "startState [entryAt PanicLevel ''svc'' ''boom {}'']"]
    by simp
qed

subsection \<open>PikaCore\<close>

lemma find_app:
  "find P (xs @ ys) = (case find P xs of None \<Rightarrow> find P ys | Some x \<Rightarrow> Some x)"
  by (induction xs) auto

lemma fieldsMap_loop_lookup:
  "fieldsMap_loop flds m k =
     (case find (\<lambda>f. Key f = k) (rev flds) of None \<Rightarrow> m k | Some f \<Rightarrow> Some (fieldValue f))"
proof (induction flds arbitrary: m)
  case Nil
  then show ?case by simp
next
  case (Cons f flds)
  show ?case
    by (simp add: Cons.IH find_app split: option.splits)
qed

text \<open>
  The map built by \<open>Write\<close>: a key is bound exactly when a field has it, to the
  converted value of the last such field.
\<close>

lemma fieldsMap_lookup:
  "fieldsMap flds k = map_option fieldValue (find (\<lambda>f. Key f = k) (rev flds))"
  by (simp add: fieldsMap_def fieldsMap_loop_lookup split: option.splits)

lemma fieldsMap_dom: "dom (fieldsMap flds) = Key ` set flds"
proof -
  have "(fieldsMap flds k \<noteq> None) = (k \<in> Key ` set flds)" for k
    by (auto simp: fieldsMap_lookup find_None_iff)
  then show ?thesis by (auto simp: dom_def)
qed

text \<open>The conversion of one field, by its type.\<close>

lemma fieldValue_cases:
  "fieldValue f =
     (if Type f = StringType then GoString (String f)
      else if Type f = Int64Type \<or> Type f = Int32Type \<or> Type f = Uint32Type \<or> Type f = Uint64Type
      then GoInt64 (Integer f)
      else if Type f = BoolType then GoBool (Integer f = 1)
      else Interface f)"
  by (cases "Type f") (simp_all add: fieldValue_def)

text \<open>
  \<open>Write\<close> when the marshaller succeeds: the message becomes the old message, a space
  and the serialization; the new entry is pushed at the back of \<open>msgCache\<close>; the wrapped
  core's \<open>Write\<close> is called once, with the new entry and the fields as given, and its
  result is the result.
\<close>

lemma PikaCore_Write_ok:
  assumes "marshal (fieldsMap flds) = Inr fieldsJson"
  shows "PikaCore_Write marshal c entry flds s =
     (fst (Write (Core c) (entry\<lparr>Message := Message entry @ '' '' @ fieldsJson\<rparr>) flds (world s)),
      s\<lparr>msgCache := msgCache s @ [entry\<lparr>Message := Message entry @ '' '' @ fieldsJson\<rparr>],
        world := snd (Write (Core c) (entry\<lparr>Message := Message entry @ '' '' @ fieldsJson\<rparr>) flds (world s)),
        trace := trace s @ [CoreWriteEv (entry\<lparr>Message := Message entry @ '' '' @ fieldsJson\<rparr>) flds]\<rparr>)"
  using assms by (simp add: PikaCore_Write_def Push_def Let_def split: prod.splits)

lemma PikaCore_Write_err:
  "marshal (fieldsMap flds) = Inl err \<Longrightarrow> PikaCore_Write marshal c entry flds s = (Some err, s)"
  by (simp add: PikaCore_Write_def)

lemma logThrough_disabled:
  "\<not> Enabled (Core c) (Level entry) \<Longrightarrow> logThrough marshal c entry flds s = s"
  by (simp add: logThrough_def PikaCore_Check_def CheckedEntry_Write_def)

lemma logThrough_enabled:
  "Enabled (Core c) (Level entry) \<Longrightarrow>
   logThrough marshal c entry flds s = snd (PikaCore_Write marshal c entry flds s)"
  by (simp add: logThrough_def PikaCore_Check_def CheckedEntry_Write_def AddCore_def)

text \<open>
  C7. When serializing the converted field map fails, \<open>Write\<close> returns that error and
  the state is as it was: nothing is pushed onto \<open>msgCache\<close>, the wrapped core's \<open>Write\<close>
  is not called (no call is recorded, its state is untouched), and no message is built.
\<close>

theorem Write_serialization_failure:
  assumes "marshal (fieldsMap flds) = Inl err"
  shows "PikaCore_Write marshal c entry flds s = (Some err, s)
         \<and> msgCache (snd (PikaCore_Write marshal c entry flds s)) = msgCache s
         \<and> trace (snd (PikaCore_Write marshal c entry flds s)) = trace s
         \<and> world (snd (PikaCore_Write marshal c entry flds s)) = world s"
  using assms by (simp add: PikaCore_Write_err)

theorem Write_serialization_failure_witness:
  "chanMarshal (fieldsMap [\<lparr>Key = ''ch'', Type = ReflectType, Integer = 0, String = [],
                            Interface = Other ()\<rparr>])
     = Inl (Error ''json: unsupported type: chan int'')
   \<and> PikaCore_Write chanMarshal \<lparr>Core = countingCore\<rparr> (entryAt InfoLevel ''svc'' ''start'')
        [\<lparr>Key = ''ch'', Type = ReflectType, Integer = 0, String = [], Interface = Other ()\<rparr>]
        (startState [])
      = (Some (Error ''json: unsupported type: chan int''), startState [])"
proof -
  have h: "chanMarshal (fieldsMap [\<lparr>Key = ''ch'', Type = ReflectType, Integer = 0, String = [],
                                    Interface = Other ()\<rparr>])
             = Inl (Error ''json: unsupported type: chan int'')"
    by (simp add: chanMarshal_def fieldsMap_def fieldValue_def)
  show ?thesis
    using h Write_serialization_failure
        [where marshal = chanMarshal
           and flds = "[\<lparr>Key = ''ch'', Type = ReflectType, Integer = 0, String = [],
                         Interface = Other ()\<rparr>]"
           and err = "Error ''json: unsupported type: chan int''"
           and c = "\<lparr>Core = countingCore\<rparr>"
           and entry = "entryAt InfoLevel ''svc'' ''start''" and s = "startState []"]
    by simp
qed

text \<open>
  C2, at a field list the code can receive: the field that \<open>zap.Int16("n", 7)\<close> builds
  has an integer type, carries 7 in \<open>Integer\<close> and nil in \<open>Interface\<close>. \<open>Write\<close>
  stores nil under \<open>n\<close>, not the 64-bit integer 7: the \<open>case\<close> list of the switch names
  \<open>Int64Type\<close>, \<open>Int32Type\<close>, \<open>Uint32Type\<close> and \<open>Uint64Type\<close> only, so the 16-bit
  and 8-bit integer types reach the default branch.
\<close>

theorem Write_int16_field_not_converted:
  "isIntegerType (Type \<lparr>Key = ''n'', Type = Int16Type, Integer = 7, String = [],
                        Interface = (Nil :: unit iface)\<rparr>)
   \<and> fieldsMap [\<lparr>Key = ''n'', Type = Int16Type, Integer = 7, String = [],
                  Interface = (Nil :: unit iface)\<rparr>] ''n'' = Some Nil
   \<and> fieldsMap [\<lparr>Key = ''n'', Type = Int16Type, Integer = 7, String = [],
                  Interface = (Nil :: unit iface)\<rparr>] ''n'' \<noteq> Some (GoInt64 7)
   \<and> fieldsMap [\<lparr>Key = ''n'', Type = Int32Type, Integer = 7, String = [],
                  Interface = (Nil :: unit iface)\<rparr>] ''n'' = Some (GoInt64 7)"
  by (simp add: isIntegerType_def fieldsMap_def fieldValue_def)

text \<open>
  C9, as the spec states it, fails: with a wrapped core that accepts levels from Info
  up, a Debug entry is rejected by the filter, \<open>Check\<close> from a nil checked entry returns
  nil, and the log call leaves the state as it was: no call of the wrapped core's \<open>Write\<close>
  is recorded and its write counter is still 0.
\<close>

theorem Check_rejected_not_forwarded:
  "\<not> Enabled (Core \<lparr>Core = countingCore\<rparr>) (Level (entryAt DebugLevel ''svc'' ''start''))
   \<and> PikaCore_Check chanMarshal \<lparr>Core = countingCore\<rparr> (entryAt DebugLevel ''svc'' ''start'') None
       = None
   \<and> trace (logThrough chanMarshal \<lparr>Core = countingCore\<rparr> (entryAt DebugLevel ''svc'' ''start'')
               [] (startState [])) = []
   \<and> world (logThrough chanMarshal \<lparr>Core = countingCore\<rparr> (entryAt DebugLevel ''svc'' ''start'')
               [] (startState [])) = 0"
  by (simp add: logThrough_def PikaCore_Check_def CheckedEntry_Write_def countingCore_def
      entryAt_def startState_def level_defs)

text \<open>
  C9, amended. For every entry whose level the stage's filter (\<open>Enabled\<close> of the
  wrapped core) does not accept, \<open>Check\<close> returns the checked entry it was given,
  unchanged: the stage is not registered for the entry, and a log call through the stage
  leaves the state as it was, so neither the enrichment and enqueue nor a write to the
  wrapped core happen.
\<close>

theorem Check_rejected_unchanged:
  assumes "\<not> Enabled (Core c) (Level entry)"
  shows "PikaCore_Check marshal c entry checked = checked
         \<and> logThrough marshal c entry flds s = s
         \<and> msgCache (logThrough marshal c entry flds s) = msgCache s
         \<and> trace (logThrough marshal c entry flds s) = trace s
         \<and> world (logThrough marshal c entry flds s) = world s"
  using assms by (simp add: logThrough_disabled PikaCore_Check_def)

theorem Check_rejected_unchanged_witness:
  "\<not> Enabled (Core \<lparr>Core = countingCore\<rparr>) (Level (entryAt DebugLevel ''svc'' ''start''))
   \<and> PikaCore_Check chanMarshal \<lparr>Core = countingCore\<rparr> (entryAt DebugLevel ''svc'' ''start'') None
       = None
   \<and> logThrough chanMarshal \<lparr>Core = countingCore\<rparr> (entryAt DebugLevel ''svc'' ''start'')
         [\<lparr>Key = ''count'', Type = Int64Type, Integer = 3, String = [], Interface = Nil\<rparr>]
         (startState [entryAt InfoLevel ''svc'' ''earlier {}''])
       = startState [entryAt InfoLevel ''svc'' ''earlier {}'']"
proof -
  have d: "\<not> Enabled (Core \<lparr>Core = countingCore\<rparr>) (Level (entryAt DebugLevel ''svc'' ''start''))"
    by (simp add: countingCore_def entryAt_def level_defs)
  show ?thesis
    using d
      Check_rejected_unchanged
        [OF d, where marshal = chanMarshal and checked = None
           and flds = "[\<lparr>Key = ''count'', Type = Int64Type, Integer = 3, String = [],
                         Interface = Nil\<rparr>]"
           and s = "startState [entryAt InfoLevel ''svc'' ''earlier {}'']"]
    by simp
qed

subsection \<open>GetHook\<close>

lemmas call_defs =
  call_DescribeLogGroups_def call_CreateLogGroup_def call_DescribeLogStreams_def
  call_CreateLogStream_def

text \<open>
  When \<open>GetHook\<close> ends with the creation of the stream, it has not written the hook.
\<close>

lemma GetHook_created_stream_keeps_hook:
  assumes "GetHook svc (ch, s) = (res, ch', s')"
    and "last (trace s') = CreateLogStreamEv inp"
  shows "ch' = ch"
  using assms
  by (auto simp: GetHook_def call_defs split: prod.splits sum.splits option.splits if_splits)

text \<open>
  \<open>GetHook\<close>, by the answers of the service. The first call is the group lookup by
  the prefix \<open>GroupName\<close> with limit 1. If it fails, or if it finds no group and the
  creation of the group fails, the error is returned, no callback, and nothing else is
  called. Once the group is there (found, and then not created; or not found and
  created) the stream lookup follows: its failure is returned; a stream found makes
  \<open>GetHook\<close> record the token of the first stream returned and return the callback,
  calling nothing after the lookup; no stream found makes it create the stream, returning
  the creation's error or else the callback with the hook, and so the token it holds,
  as it was. Every operation is called at most once. With a group and a stream already
  there the only calls are the two lookups.
\<close>

theorem GetHook_initialization:
  "let dlg = \<lparr>LogGroupNamePrefix = GroupName ch, Limit = 1\<rparr>;
       clg = \<lparr>clg_LogGroupName = GroupName ch\<rparr>;
       dls = \<lparr>dls_LogGroupName = GroupName ch, LogStreamNamePrefix = StreamName ch\<rparr>;
       cls = \<lparr>cls_LogGroupName = GroupName ch, cls_LogStreamName = StreamName ch\<rparr>
   in
     (DescribeLogGroups svc dlg (world s) = (Inl err, wa) \<longrightarrow>
        GetHook svc (ch, s) =
          (Inl err, ch, s\<lparr>world := wa, trace := trace s @ [DescribeLogGroupsEv dlg]\<rparr>))
   \<and> (DescribeLogGroups svc dlg (world s) = (Inr lg, wa) \<and> LogGroups lg = []
        \<and> CreateLogGroup svc clg wa = (Some err, wb) \<longrightarrow>
        GetHook svc (ch, s) =
          (Inl err, ch,
           s\<lparr>world := wb, trace := trace s @ [DescribeLogGroupsEv dlg, CreateLogGroupEv clg]\<rparr>))
   \<and> (DescribeLogGroups svc dlg (world s) = (Inr lg, wa)
        \<and> (LogGroups lg \<noteq> [] \<and> wg = wa \<and> tg = [DescribeLogGroupsEv dlg]
           \<or> LogGroups lg = [] \<and> CreateLogGroup svc clg wa = (None, wg)
             \<and> tg = [DescribeLogGroupsEv dlg, CreateLogGroupEv clg]) \<longrightarrow>
        (DescribeLogStreams svc dls wg = (Inl err, wc) \<longrightarrow>
           GetHook svc (ch, s) =
             (Inl err, ch, s\<lparr>world := wc, trace := trace s @ tg @ [DescribeLogStreamsEv dls]\<rparr>))
        \<and> (DescribeLogStreams svc dls wg = (Inr resp, wc) \<and> LogStreams resp = st # rest \<longrightarrow>
           GetHook svc (ch, s) =
             (Inr (cloudwatchWriter svc), ch\<lparr>nextSequenceToken := UploadSequenceToken st\<rparr>,
              s\<lparr>world := wc, trace := trace s @ tg @ [DescribeLogStreamsEv dls]\<rparr>))
        \<and> (DescribeLogStreams svc dls wg = (Inr resp, wc) \<and> LogStreams resp = []
             \<and> CreateLogStream svc cls wc = (Some err, wd) \<longrightarrow>
           GetHook svc (ch, s) =
             (Inl err, ch,
              s\<lparr>world := wd,
                trace := trace s @ tg @ [DescribeLogStreamsEv dls, CreateLogStreamEv cls]\<rparr>))
        \<and> (DescribeLogStreams svc dls wg = (Inr resp, wc) \<and> LogStreams resp = []
             \<and> CreateLogStream svc cls wc = (None, wd) \<longrightarrow>
           GetHook svc (ch, s) =
             (Inr (cloudwatchWriter svc), ch,
              s\<lparr>world := wd,
                trace := trace s @ tg @ [DescribeLogStreamsEv dls, CreateLogStreamEv cls]\<rparr>)))
   \<and> (DescribeLogGroups svc dlg (world s) = (Inr lg, wa) \<and> LogGroups lg \<noteq> []
        \<and> DescribeLogStreams svc dls wa = (Inr resp, wc) \<and> LogStreams resp = st # rest \<longrightarrow>
        GetHook svc (ch, s) =
          (Inr (cloudwatchWriter svc), ch\<lparr>nextSequenceToken := UploadSequenceToken st\<rparr>,
           s\<lparr>world := wc,
             trace := trace s @ [DescribeLogGroupsEv dlg, DescribeLogStreamsEv dls]\<rparr>))"
  unfolding Let_def
proof (intro conjI impI, goal_cases)
  case 1
  then show ?case by (simp add: GetHook_def call_defs)
next
  case 2
  then show ?case by (simp add: GetHook_def call_defs)
next
  case 3
  then show ?case by (auto simp: GetHook_def call_defs)
next
  case 4
  then show ?case by (auto simp: GetHook_def call_defs)
next
  case 5
  then show ?case by (auto simp: GetHook_def call_defs)
next
  case 6
  then show ?case by (auto simp: GetHook_def call_defs)
next
  case 7
  then show ?case by (simp add: GetHook_def call_defs)
qed

lemmas fixture_defs =
  scriptedSvc_def startState_def hook0_def NewCloudwatchHook_def noGroups_def oneGroup_def
  noStreams_def oneStream_def entryAt_def

theorem GetHook_initialization_witness:
  "GetHook (scriptedSvc (Inl (Error ''down'')) None oneStream None putOk) (hook0, startState [])
     = (Inl (Error ''down''), hook0,
        \<lparr>msgCache = [], world = 1, trace = [DescribeLogGroupsEv \<lparr>LogGroupNamePrefix = ''g'', Limit = 1\<rparr>], spawned = []\<rparr>)
   \<and> GetHook (scriptedSvc noGroups (Some (Error ''denied'')) oneStream None putOk) (hook0, startState [])
     = (Inl (Error ''denied''), hook0,
        \<lparr>msgCache = [], world = 2, trace = [DescribeLogGroupsEv \<lparr>LogGroupNamePrefix = ''g'', Limit = 1\<rparr>, CreateLogGroupEv \<lparr>clg_LogGroupName = ''g''\<rparr>], spawned = []\<rparr>)
   \<and> GetHook (scriptedSvc oneGroup None (Inl (Error ''throttled'')) None putOk) (hook0, startState [])
     = (Inl (Error ''throttled''), hook0,
        \<lparr>msgCache = [], world = 2, trace = [DescribeLogGroupsEv \<lparr>LogGroupNamePrefix = ''g'', Limit = 1\<rparr>, DescribeLogStreamsEv \<lparr>dls_LogGroupName = ''g'', LogStreamNamePrefix = ''s''\<rparr>], spawned = []\<rparr>)
   \<and> GetHook (scriptedSvc noGroups None oneStream None putOk) (hook0, startState [])
     = (Inr (cloudwatchWriter (scriptedSvc noGroups None oneStream None putOk)), hook0\<lparr>nextSequenceToken := Some ''tok''\<rparr>,
        \<lparr>msgCache = [], world = 3, trace = [DescribeLogGroupsEv \<lparr>LogGroupNamePrefix = ''g'', Limit = 1\<rparr>, CreateLogGroupEv \<lparr>clg_LogGroupName = ''g''\<rparr>, DescribeLogStreamsEv \<lparr>dls_LogGroupName = ''g'', LogStreamNamePrefix = ''s''\<rparr>], spawned = []\<rparr>)
   \<and> GetHook (scriptedSvc oneGroup None noStreams (Some (Error ''limit'')) putOk) (hook0, startState [])
     = (Inl (Error ''limit''), hook0,
        \<lparr>msgCache = [], world = 3, trace = [DescribeLogGroupsEv \<lparr>LogGroupNamePrefix = ''g'', Limit = 1\<rparr>, DescribeLogStreamsEv \<lparr>dls_LogGroupName = ''g'', LogStreamNamePrefix = ''s''\<rparr>, CreateLogStreamEv \<lparr>cls_LogGroupName = ''g'', cls_LogStreamName = ''s''\<rparr>], spawned = []\<rparr>)
   \<and> GetHook (scriptedSvc noGroups None noStreams None putOk) (hook0, startState [])
     = (Inr (cloudwatchWriter (scriptedSvc noGroups None noStreams None putOk)), hook0,
        \<lparr>msgCache = [], world = 4, trace = [DescribeLogGroupsEv \<lparr>LogGroupNamePrefix = ''g'', Limit = 1\<rparr>, CreateLogGroupEv \<lparr>clg_LogGroupName = ''g''\<rparr>, DescribeLogStreamsEv \<lparr>dls_LogGroupName = ''g'', LogStreamNamePrefix = ''s''\<rparr>, CreateLogStreamEv \<lparr>cls_LogGroupName = ''g'', cls_LogStreamName = ''s''\<rparr>], spawned = []\<rparr>)
   \<and> GetHook (scriptedSvc oneGroup None oneStream None putOk) (hook0, startState [])
     = (Inr (cloudwatchWriter (scriptedSvc oneGroup None oneStream None putOk)), hook0\<lparr>nextSequenceToken := Some ''tok''\<rparr>,
        \<lparr>msgCache = [], world = 2, trace = [DescribeLogGroupsEv \<lparr>LogGroupNamePrefix = ''g'', Limit = 1\<rparr>, DescribeLogStreamsEv \<lparr>dls_LogGroupName = ''g'', LogStreamNamePrefix = ''s''\<rparr>], spawned = []\<rparr>)"
proof -
  have a: "GetHook (scriptedSvc (Inl (Error ''down'')) None oneStream None putOk) (hook0, startState [])
         = (Inl (Error ''down''), hook0,
            \<lparr>msgCache = [], world = 1, trace = [DescribeLogGroupsEv \<lparr>LogGroupNamePrefix = ''g'', Limit = 1\<rparr>], spawned = []\<rparr>)"
    using GetHook_initialization
        [where svc = "scriptedSvc (Inl (Error ''down'')) None oneStream None putOk" and ch = hook0 and s = "startState []"
           and err = "Error ''down''"
           and wa = "1"
           and lg = "\<lparr>LogGroups = []\<rparr>"
           and wb = "0"
           and wg = "0"
           and tg = "[]"
           and wc = "0"
           and resp = "\<lparr>LogStreams = []\<rparr>"
           and st = "\<lparr>ls_LogStreamName = ''s'', UploadSequenceToken = None\<rparr>"
           and rest = "[]"
           and wd = "0"]
    by (simp add: fixture_defs)
  have b: "GetHook (scriptedSvc noGroups (Some (Error ''denied'')) oneStream None putOk) (hook0, startState [])
         = (Inl (Error ''denied''), hook0,
            \<lparr>msgCache = [], world = 2, trace = [DescribeLogGroupsEv \<lparr>LogGroupNamePrefix = ''g'', Limit = 1\<rparr>, CreateLogGroupEv \<lparr>clg_LogGroupName = ''g''\<rparr>], spawned = []\<rparr>)"
    using GetHook_initialization
        [where svc = "scriptedSvc noGroups (Some (Error ''denied'')) oneStream None putOk" and ch = hook0 and s = "startState []"
           and err = "Error ''denied''"
           and wa = "1"
           and lg = "\<lparr>LogGroups = []\<rparr>"
           and wb = "2"
           and wg = "0"
           and tg = "[]"
           and wc = "0"
           and resp = "\<lparr>LogStreams = []\<rparr>"
           and st = "\<lparr>ls_LogStreamName = ''s'', UploadSequenceToken = None\<rparr>"
           and rest = "[]"
           and wd = "0"]
    by (simp add: fixture_defs)
  have c: "GetHook (scriptedSvc oneGroup None (Inl (Error ''throttled'')) None putOk) (hook0, startState [])
         = (Inl (Error ''throttled''), hook0,
            \<lparr>msgCache = [], world = 2, trace = [DescribeLogGroupsEv \<lparr>LogGroupNamePrefix = ''g'', Limit = 1\<rparr>, DescribeLogStreamsEv \<lparr>dls_LogGroupName = ''g'', LogStreamNamePrefix = ''s''\<rparr>], spawned = []\<rparr>)"
    using GetHook_initialization
        [where svc = "scriptedSvc oneGroup None (Inl (Error ''throttled'')) None putOk" and ch = hook0 and s = "startState []"
           and err = "Error ''throttled''"
           and wa = "1"
           and lg = "\<lparr>LogGroups = [\<lparr>lg_LogGroupName = ''g''\<rparr>]\<rparr>"
           and wb = "0"
           and wg = "1"
           and tg = "[DescribeLogGroupsEv \<lparr>LogGroupNamePrefix = ''g'', Limit = 1\<rparr>]"
           and wc = "2"
           and resp = "\<lparr>LogStreams = []\<rparr>"
           and st = "\<lparr>ls_LogStreamName = ''s'', UploadSequenceToken = None\<rparr>"
           and rest = "[]"
           and wd = "0"]
    by (simp add: fixture_defs)
  have d: "GetHook (scriptedSvc noGroups None oneStream None putOk) (hook0, startState [])
         = (Inr (cloudwatchWriter (scriptedSvc noGroups None oneStream None putOk)), hook0\<lparr>nextSequenceToken := Some ''tok''\<rparr>,
            \<lparr>msgCache = [], world = 3, trace = [DescribeLogGroupsEv \<lparr>LogGroupNamePrefix = ''g'', Limit = 1\<rparr>, CreateLogGroupEv \<lparr>clg_LogGroupName = ''g''\<rparr>, DescribeLogStreamsEv \<lparr>dls_LogGroupName = ''g'', LogStreamNamePrefix = ''s''\<rparr>], spawned = []\<rparr>)"
    using GetHook_initialization
        [where svc = "scriptedSvc noGroups None oneStream None putOk" and ch = hook0 and s = "startState []"
           and err = "Error ''none''"
           and wa = "1"
           and lg = "\<lparr>LogGroups = []\<rparr>"
           and wb = "0"
           and wg = "2"
           and tg = "[DescribeLogGroupsEv \<lparr>LogGroupNamePrefix = ''g'', Limit = 1\<rparr>, CreateLogGroupEv \<lparr>clg_LogGroupName = ''g''\<rparr>]"
           and wc = "3"
           and resp = "\<lparr>LogStreams = [\<lparr>ls_LogStreamName = ''s'', UploadSequenceToken = Some ''tok''\<rparr>]\<rparr>"
           and st = "\<lparr>ls_LogStreamName = ''s'', UploadSequenceToken = Some ''tok''\<rparr>"
           and rest = "[]"
           and wd = "0"]
    by (simp add: fixture_defs)
  have e: "GetHook (scriptedSvc oneGroup None noStreams (Some (Error ''limit'')) putOk) (hook0, startState [])
         = (Inl (Error ''limit''), hook0,
            \<lparr>msgCache = [], world = 3, trace = [DescribeLogGroupsEv \<lparr>LogGroupNamePrefix = ''g'', Limit = 1\<rparr>, DescribeLogStreamsEv \<lparr>dls_LogGroupName = ''g'', LogStreamNamePrefix = ''s''\<rparr>, CreateLogStreamEv \<lparr>cls_LogGroupName = ''g'', cls_LogStreamName = ''s''\<rparr>], spawned = []\<rparr>)"
    using GetHook_initialization
        [where svc = "scriptedSvc oneGroup None noStreams (Some (Error ''limit'')) putOk" and ch = hook0 and s = "startState []"
           and err = "Error ''limit''"
           and wa = "1"
           and lg = "\<lparr>LogGroups = [\<lparr>lg_LogGroupName = ''g''\<rparr>]\<rparr>"
           and wb = "0"
           and wg = "1"
           and tg = "[DescribeLogGroupsEv \<lparr>LogGroupNamePrefix = ''g'', Limit = 1\<rparr>]"
           and wc = "2"
           and resp = "\<lparr>LogStreams = []\<rparr>"
           and st = "\<lparr>ls_LogStreamName = ''s'', UploadSequenceToken = None\<rparr>"
           and rest = "[]"
           and wd = "3"]
    by (simp add: fixture_defs)
  have f: "GetHook (scriptedSvc noGroups None noStreams None putOk) (hook0, startState [])
         = (Inr (cloudwatchWriter (scriptedSvc noGroups None noStreams None putOk)), hook0,
            \<lparr>msgCache = [], world = 4, trace = [DescribeLogGroupsEv \<lparr>LogGroupNamePrefix = ''g'', Limit = 1\<rparr>, CreateLogGroupEv \<lparr>clg_LogGroupName = ''g''\<rparr>, DescribeLogStreamsEv \<lparr>dls_LogGroupName = ''g'', LogStreamNamePrefix = ''s''\<rparr>, CreateLogStreamEv \<lparr>cls_LogGroupName = ''g'', cls_LogStreamName = ''s''\<rparr>], spawned = []\<rparr>)"
    using GetHook_initialization
        [where svc = "scriptedSvc noGroups None noStreams None putOk" and ch = hook0 and s = "startState []"
           and err = "Error ''none''"
           and wa = "1"
           and lg = "\<lparr>LogGroups = []\<rparr>"
           and wb = "0"
           and wg = "2"
           and tg = "[DescribeLogGroupsEv \<lparr>LogGroupNamePrefix = ''g'', Limit = 1\<rparr>, CreateLogGroupEv \<lparr>clg_LogGroupName = ''g''\<rparr>]"
           and wc = "3"
           and resp = "\<lparr>LogStreams = []\<rparr>"
           and st = "\<lparr>ls_LogStreamName = ''s'', UploadSequenceToken = None\<rparr>"
           and rest = "[]"
           and wd = "4"]
    by (simp add: fixture_defs)
  have g: "GetHook (scriptedSvc oneGroup None oneStream None putOk) (hook0, startState [])
         = (Inr (cloudwatchWriter (scriptedSvc oneGroup None oneStream None putOk)), hook0\<lparr>nextSequenceToken := Some ''tok''\<rparr>,
            \<lparr>msgCache = [], world = 2, trace = [DescribeLogGroupsEv \<lparr>LogGroupNamePrefix = ''g'', Limit = 1\<rparr>, DescribeLogStreamsEv \<lparr>dls_LogGroupName = ''g'', LogStreamNamePrefix = ''s''\<rparr>], spawned = []\<rparr>)"
    using GetHook_initialization
        [where svc = "scriptedSvc oneGroup None oneStream None putOk" and ch = hook0 and s = "startState []"
           and err = "Error ''none''"
           and wa = "1"
           and lg = "\<lparr>LogGroups = [\<lparr>lg_LogGroupName = ''g''\<rparr>]\<rparr>"
           and wb = "0"
           and wg = "0"
           and tg = "[]"
           and wc = "2"
           and resp = "\<lparr>LogStreams = [\<lparr>ls_LogStreamName = ''s'', UploadSequenceToken = Some ''tok''\<rparr>]\<rparr>"
           and st = "\<lparr>ls_LogStreamName = ''s'', UploadSequenceToken = Some ''tok''\<rparr>"
           and rest = "[]"
           and wd = "0"]
    by (simp add: fixture_defs)
  from a b c d e f g show ?thesis
    by (simp only: simp_thms)
qed

text \<open>
  C5, at a hook that already holds a token. A first \<open>GetHook\<close> on a hook from
  \<open>NewCloudwatchHook\<close> finds the stream and records its token \<open>tok\<close>. \<open>GetHook\<close> is
  called again on the same hook when the stream is gone: the lookup returns no stream,
  the stream is created, and the callback is returned with the recorded token still
  \<open>tok\<close>, not nil. The create path (the source comments it with "the next sequence
  token will be null") never assigns \<open>nextSequenceToken\<close>.
\<close>

theorem GetHook_created_stream_keeps_old_token:
  "GetHook (scriptedSvc oneGroup None oneStream None putOk) (hook0, startState [])
     = (Inr (cloudwatchWriter (scriptedSvc oneGroup None oneStream None putOk)),
        hookWith (Some ''tok''),
        (startState [])
          \<lparr>world := 2,
           trace := [DescribeLogGroupsEv \<lparr>LogGroupNamePrefix = ''g'', Limit = 1\<rparr>,
                     DescribeLogStreamsEv \<lparr>dls_LogGroupName = ''g'', LogStreamNamePrefix = ''s''\<rparr>]\<rparr>)
   \<and> GetHook (scriptedSvc oneGroup None noStreams None putOk)
         (hookWith (Some ''tok''), startState [])
     = (Inr (cloudwatchWriter (scriptedSvc oneGroup None noStreams None putOk)),
        hookWith (Some ''tok''),
        (startState [])
          \<lparr>world := 3,
           trace := [DescribeLogGroupsEv \<lparr>LogGroupNamePrefix = ''g'', Limit = 1\<rparr>,
                     DescribeLogStreamsEv \<lparr>dls_LogGroupName = ''g'', LogStreamNamePrefix = ''s''\<rparr>,
                     CreateLogStreamEv \<lparr>cls_LogGroupName = ''g'', cls_LogStreamName = ''s''\<rparr>]\<rparr>)
   \<and> nextSequenceToken (hookWith (Some ''tok'')) = Some ''tok''
   \<and> nextSequenceToken (hookWith (Some ''tok'')) \<noteq> None"
  by (simp add: GetHook_def call_defs fixture_defs hookWith_def)

subsection \<open>The callback and the sequence token\<close>

text \<open>
  The callback on an accepted level. With \<open>e'\<close> the front of \<open>msgCache\<close> if
  there is one and the entry given otherwise: the callback takes that one entry off the
  queue (none if the queue is empty) and builds the request \<open>req\<close> with the single event
  \<open>[<logger name>] <message>\<close> of \<open>e'\<close>, the configured group and stream, and the token
  the hook holds. The request is handed to a goroutine (\<open>Async\<close>) or sent by
  \<open>sendEvent\<close>, so that it is what \<open>PutLogEvents\<close> receives. The timestamp is the
  clock's nanoseconds divided by 1000000 with truncation; for a clock at or after the
  epoch it is the number of whole milliseconds. Right after an initialization of a hook
  from \<open>NewCloudwatchHook\<close> that created the stream, the token of the request is nil.
\<close>

theorem callback_builds_request:
  assumes "isAcceptedLevel ch (Level e)"
  shows
  "let e' = (case msgCache s of [] \<Rightarrow> e | m # q \<Rightarrow> m);
       req = \<lparr>LogEvents = [\<lparr>ev_Message = ''['' @ LoggerName e' @ ''] '' @ Message e',
                              Timestamp = int64_div now 1000000\<rparr>],
              LogGroupName = GroupName ch,
              LogStreamName = StreamName ch,
              SequenceToken = nextSequenceToken ch\<rparr>;
       s1 = s\<lparr>msgCache := drop 1 (msgCache s)\<rparr>;
       s' = snd (snd (cloudwatchWriter svc now e (ch, s)))
   in cloudwatchWriter svc now e (ch, s) =
        (if Async ch then (None, ch, s1\<lparr>spawned := spawned s1 @ [req]\<rparr>)
         else sendEvent svc req (ch, s1))
      \<and> msgCache s' = drop 1 (msgCache s)
      \<and> (if Async ch then spawned s' = spawned s @ [req] \<and> trace s' = trace s
          else trace s' = trace s @ [PutLogEventsEv req (fst (PutLogEvents svc req (world s)))]
               \<and> spawned s' = spawned s)
      \<and> sint (int64_div now 1000000) = sint now sdiv 1000000
      \<and> (0 \<le> sint now \<longrightarrow>
            sint (int64_div now 1000000) * 1000000 \<le> sint now
            \<and> sint now < (sint (int64_div now 1000000) + 1) * 1000000)
      \<and> (GetHook svc (NewCloudwatchHook g st a l, s0) = (res, ch, s)
            \<and> last (trace s) = CreateLogStreamEv cls \<longrightarrow> SequenceToken req = None)"
proof -
  have run: "cloudwatchWriter svc now e (ch, s) =
     (let req = mkParams ch (case msgCache s of [] \<Rightarrow> e | m # q \<Rightarrow> m) now;
          s1 = s\<lparr>msgCache := drop 1 (msgCache s)\<rparr>
      in if Async ch then (None, ch, s1\<lparr>spawned := spawned s1 @ [req]\<rparr>)
         else sendEvent svc req (ch, s1))"
    using assms by (rule cloudwatchWriter_accepted)
  have fresh: "nextSequenceToken ch = None"
    if "GetHook svc (NewCloudwatchHook g st a l, s0) = (res, ch, s)"
      and "last (trace s) = CreateLogStreamEv cls"
  proof -
    from that have "ch = NewCloudwatchHook g st a l"
      by (rule GetHook_created_stream_keeps_hook)
    then show ?thesis by (simp add: NewCloudwatchHook_def)
  qed
  have ms: "0 \<le> sint now \<Longrightarrow>
      sint (int64_div now 1000000) * 1000000 \<le> sint now
      \<and> sint now < (sint (int64_div now 1000000) + 1) * 1000000"
    by (rule int64_div_nonneg)
  show ?thesis
    unfolding Let_def
    using fresh ms
    by (simp add: run mkParams_def Let_def sendEvent_def int64_div_sint
        split: prod.splits sum.splits)
qed

theorem callback_builds_request_witness:
  "isAcceptedLevel hook0 (Level (entryAt InfoLevel ''svc'' ''start''))
   \<and> GetHook (scriptedSvc noGroups None noStreams None putOk)
         (NewCloudwatchHook ''g'' ''s'' False InfoLevel,
          startState [entryAt InfoLevel ''svc'' ''start {}''])
       = (Inr (cloudwatchWriter (scriptedSvc noGroups None noStreams None putOk)), hook0,
          createdState [entryAt InfoLevel ''svc'' ''start {}''])
   \<and> cloudwatchWriter (scriptedSvc noGroups None noStreams None putOk) 1700000000123456789
         (entryAt InfoLevel ''svc'' ''start'')
         (hook0, createdState [entryAt InfoLevel ''svc'' ''start {}''])
       = (None, hook0\<lparr>nextSequenceToken := Some ''ttttt''\<rparr>,
          (createdState [])
            \<lparr>world := 5,
             trace := trace (createdState []) @
               [PutLogEventsEv
                  \<lparr>LogEvents = [\<lparr>ev_Message = ''[svc] start {}'', Timestamp = 1700000000123\<rparr>],
                     LogGroupName = ''g'', LogStreamName = ''s'', SequenceToken = None\<rparr>
                  (Inr \<lparr>NextSequenceToken = Some ''ttttt''\<rparr>)]\<rparr>)"
proof -
  have acc: "isAcceptedLevel hook0 (Level (entryAt InfoLevel ''svc'' ''start''))"
    by (simp add: isAcceptedLevel_set Levels_def LevelThreshold_dropWhile AllLevels_def
        level_defs fixture_defs)
  have init: "GetHook (scriptedSvc noGroups None noStreams None putOk)
         (NewCloudwatchHook ''g'' ''s'' False InfoLevel,
          startState [entryAt InfoLevel ''svc'' ''start {}''])
       = (Inr (cloudwatchWriter (scriptedSvc noGroups None noStreams None putOk)), hook0,
          createdState [entryAt InfoLevel ''svc'' ''start {}''])"
    by (simp add: GetHook_def call_defs fixture_defs createdState_def)
  have ts: "int64_div 1700000000123456789 1000000 = 1700000000123"
    by (simp add: int64_div_def signed_divide_int_def)
  have r: "replicate 4 CHR ''t'' = ''tttt''"
    by (simp add: numeral_eq_Suc)
  have run: "cloudwatchWriter (scriptedSvc noGroups None noStreams None putOk) 1700000000123456789
         (entryAt InfoLevel ''svc'' ''start'')
         (hook0, createdState [entryAt InfoLevel ''svc'' ''start {}''])
       = (None, hook0\<lparr>nextSequenceToken := Some ''ttttt''\<rparr>,
          (createdState [])
            \<lparr>world := 5,
             trace := trace (createdState []) @
               [PutLogEventsEv
                  \<lparr>LogEvents = [\<lparr>ev_Message = ''[svc] start {}'', Timestamp = 1700000000123\<rparr>],
                     LogGroupName = ''g'', LogStreamName = ''s'', SequenceToken = None\<rparr>
                  (Inr \<lparr>NextSequenceToken = Some ''ttttt''\<rparr>)]\<rparr>)"
    using callback_builds_request
        [OF acc, where svc = "scriptedSvc noGroups None noStreams None putOk"
           and now = 1700000000123456789
           and s = "createdState [entryAt InfoLevel ''svc'' ''start {}'']"
           and g = "''g''" and st = "''s''" and a = False and l = InfoLevel
           and ?s0.0 = "startState [entryAt InfoLevel ''svc'' ''start {}'']"
           and res = "Inr (cloudwatchWriter (scriptedSvc noGroups None noStreams None putOk))"
           and cls = "\<lparr>cls_LogGroupName = ''g'', cls_LogStreamName = ''s''\<rparr>",
           unfolded Let_def, THEN conjunct1]
    by (simp add: ts r sendEvent_def putOk_def fixture_defs createdState_def)
  from acc init run show ?thesis
    by (simp only: simp_thms)
qed

text \<open>
  C4, on the first call after an initialization that created the stream, when the hook
  already held the token \<open>tok\<close> (\<open>GetHook\<close> called again, the stream gone): the stream is
  created by that initialization, and the request of the first callback after it carries
  \<open>tok\<close>, not nil.
\<close>

theorem first_request_after_created_stream_carries_old_token:
  "last (trace (snd (snd (GetHook (scriptedSvc oneGroup None noStreams None putOk)
                            (hookWith (Some ''tok''), startState [])))))
     = CreateLogStreamEv \<lparr>cls_LogGroupName = ''g'', cls_LogStreamName = ''s''\<rparr>
   \<and> cloudwatchWriter (scriptedSvc oneGroup None noStreams None putOk) 1700000000123456789
         (entryAt InfoLevel ''svc'' ''start'')
         (snd (GetHook (scriptedSvc oneGroup None noStreams None putOk)
                 (hookWith (Some ''tok''), startState [])))
     = (None, hookWith (Some ''tttt''),
        (startState [])
          \<lparr>world := 4,
           trace := [DescribeLogGroupsEv \<lparr>LogGroupNamePrefix = ''g'', Limit = 1\<rparr>,
                     DescribeLogStreamsEv \<lparr>dls_LogGroupName = ''g'', LogStreamNamePrefix = ''s''\<rparr>,
                     CreateLogStreamEv \<lparr>cls_LogGroupName = ''g'', cls_LogStreamName = ''s''\<rparr>,
                     PutLogEventsEv (reqWith ''[svc] start'' 1700000000123 (Some ''tok''))
                       (Inr \<lparr>NextSequenceToken = Some ''tttt''\<rparr>)]\<rparr>)
   \<and> SequenceToken (reqWith ''[svc] start'' 1700000000123 (Some ''tok'')) \<noteq> None"
proof -
  have init: "GetHook (scriptedSvc oneGroup None noStreams None putOk)
         (hookWith (Some ''tok''), startState [])
     = (Inr (cloudwatchWriter (scriptedSvc oneGroup None noStreams None putOk)),
        hookWith (Some ''tok''),
        (startState [])
          \<lparr>world := 3,
           trace := [DescribeLogGroupsEv \<lparr>LogGroupNamePrefix = ''g'', Limit = 1\<rparr>,
                     DescribeLogStreamsEv \<lparr>dls_LogGroupName = ''g'', LogStreamNamePrefix = ''s''\<rparr>,
                     CreateLogStreamEv \<lparr>cls_LogGroupName = ''g'', cls_LogStreamName = ''s''\<rparr>]\<rparr>)"
    by (simp add: GetHook_def call_defs fixture_defs hookWith_def)
  have acc: "isAcceptedLevel (hookWith (Some ''tok'')) (Level (entryAt InfoLevel ''svc'' ''start''))"
    by (simp add: isAcceptedLevel_set Levels_def LevelThreshold_dropWhile AllLevels_def
        level_defs fixture_defs hookWith_def)
  have ts: "int64_div 1700000000123456789 1000000 = 1700000000123"
    by (simp add: int64_div_def signed_divide_int_def)
  have r: "replicate 3 CHR ''t'' = ''ttt''"
    by (simp add: numeral_eq_Suc)
  have run: "cloudwatchWriter (scriptedSvc oneGroup None noStreams None putOk) 1700000000123456789
         (entryAt InfoLevel ''svc'' ''start'')
         (hookWith (Some ''tok''),
          (startState [])
            \<lparr>world := 3,
             trace := [DescribeLogGroupsEv \<lparr>LogGroupNamePrefix = ''g'', Limit = 1\<rparr>,
                       DescribeLogStreamsEv \<lparr>dls_LogGroupName = ''g'', LogStreamNamePrefix = ''s''\<rparr>,
                       CreateLogStreamEv \<lparr>cls_LogGroupName = ''g'', cls_LogStreamName = ''s''\<rparr>]\<rparr>)
     = (None, hookWith (Some ''tttt''),
        (startState [])
          \<lparr>world := 4,
           trace := [DescribeLogGroupsEv \<lparr>LogGroupNamePrefix = ''g'', Limit = 1\<rparr>,
                     DescribeLogStreamsEv \<lparr>dls_LogGroupName = ''g'', LogStreamNamePrefix = ''s''\<rparr>,
                     CreateLogStreamEv \<lparr>cls_LogGroupName = ''g'', cls_LogStreamName = ''s''\<rparr>,
                     PutLogEventsEv (reqWith ''[svc] start'' 1700000000123 (Some ''tok''))
                       (Inr \<lparr>NextSequenceToken = Some ''tttt''\<rparr>)]\<rparr>)"
    using cloudwatchWriter_accepted
        [OF acc, where svc = "scriptedSvc oneGroup None noStreams None putOk"
           and now = 1700000000123456789
           and s = "(startState [])
            \<lparr>world := 3,
             trace := [DescribeLogGroupsEv \<lparr>LogGroupNamePrefix = ''g'', Limit = 1\<rparr>,
                       DescribeLogStreamsEv \<lparr>dls_LogGroupName = ''g'', LogStreamNamePrefix = ''s''\<rparr>,
                       CreateLogStreamEv \<lparr>cls_LogGroupName = ''g'', cls_LogStreamName = ''s''\<rparr>]\<rparr>"]
    by (simp add: mkParams_def Let_def ts r sendEvent_def putOk_def fixture_defs hookWith_def
        reqWith_def)
  show ?thesis
    unfolding init
    by (simp add: run reqWith_def)
qed

text \<open>
  C1, as stated, fails with \<open>Async\<close>. Two callbacks in a row build their requests
  while the hook holds \<open>tok\<close>; then the two goroutines run. Both appends succeed, the
  first response returns the token \<open>t\<close>, and the second request, built before the first
  append returned, is sent with \<open>tok\<close>.
\<close>

theorem async_second_request_carries_stale_token:
  "trace (snd (runSpawned (scriptedSvc oneGroup None oneStream None putOk) 0
          (runSpawned (scriptedSvc oneGroup None oneStream None putOk) 0
            (snd (cloudwatchWriter (scriptedSvc oneGroup None oneStream None putOk) 2000000
                    (entryAt InfoLevel ''svc'' ''two'')
               (snd (cloudwatchWriter (scriptedSvc oneGroup None oneStream None putOk) 1000000
                       (entryAt InfoLevel ''svc'' ''one'')
                       (asyncHook (Some ''tok''), startState []))))))))
     = [PutLogEventsEv (reqWith ''[svc] one'' 1 (Some ''tok''))
          (Inr \<lparr>NextSequenceToken = Some ''t''\<rparr>),
        PutLogEventsEv (reqWith ''[svc] two'' 2 (Some ''tok''))
          (Inr \<lparr>NextSequenceToken = Some ''tt''\<rparr>)]
   \<and> SequenceToken (reqWith ''[svc] two'' 2 (Some ''tok''))
       \<noteq> NextSequenceToken \<lparr>NextSequenceToken = Some ''t''\<rparr>"
proof -
  note defs = fixture_defs hookWith_def asyncHook_def reqWith_def putOk_def
  have a1: "isAcceptedLevel (asyncHook (Some ''tok'')) (Level (entryAt InfoLevel ''svc'' ''one''))"
    by (simp add: isAcceptedLevel_set Levels_def LevelThreshold_dropWhile AllLevels_def
        level_defs defs)
  have a2: "isAcceptedLevel (asyncHook (Some ''tok'')) (Level (entryAt InfoLevel ''svc'' ''two''))"
    by (simp add: isAcceptedLevel_set Levels_def LevelThreshold_dropWhile AllLevels_def
        level_defs defs)
  have t1: "int64_div 1000000 1000000 = 1" and t2: "int64_div 2000000 1000000 = 2"
    by (simp_all add: int64_div_def signed_divide_int_def)
  have one: "snd (cloudwatchWriter (scriptedSvc oneGroup None oneStream None putOk) 1000000
                    (entryAt InfoLevel ''svc'' ''one'') (asyncHook (Some ''tok''), startState []))
     = (asyncHook (Some ''tok''),
        (startState [])\<lparr>spawned := [reqWith ''[svc] one'' 1 (Some ''tok'')]\<rparr>)"
    using cloudwatchWriter_accepted
        [OF a1, where svc = "scriptedSvc oneGroup None oneStream None putOk" and now = 1000000
           and s = "startState []"]
    by (simp add: mkParams_def Let_def t1 defs)
  have two: "snd (cloudwatchWriter (scriptedSvc oneGroup None oneStream None putOk) 2000000
                    (entryAt InfoLevel ''svc'' ''two'')
                    (asyncHook (Some ''tok''),
                     (startState [])\<lparr>spawned := [reqWith ''[svc] one'' 1 (Some ''tok'')]\<rparr>))
     = (asyncHook (Some ''tok''),
        (startState [])\<lparr>spawned := [reqWith ''[svc] one'' 1 (Some ''tok''),
                                      reqWith ''[svc] two'' 2 (Some ''tok'')]\<rparr>)"
    using cloudwatchWriter_accepted
        [OF a2, where svc = "scriptedSvc oneGroup None oneStream None putOk" and now = 2000000
           and s = "(startState [])\<lparr>spawned := [reqWith ''[svc] one'' 1 (Some ''tok'')]\<rparr>"]
    by (simp add: mkParams_def Let_def t2 defs)
  show ?thesis
    unfolding one two
    by (simp add: runSpawned_def sendEvent_def defs)
qed

text \<open>
  C1, amended. \<open>sendEvent\<close> on success returns nil and overwrites the recorded token with the
  token of the response; on failure it returns the error and leaves the hook as it was.
  The request that the callback builds for an accepted entry carries the token recorded
  at that moment, and it is that request which \<open>PutLogEvents\<close> receives: at once, or,
  with \<open>Async\<close>, when the goroutine runs, whatever the hook holds by then. After a
  non-empty run of appends that all succeed, the last response's token is the recorded
  one, and the request built after the last of them has returned carries exactly that
  token.
\<close>

theorem sequence_token_protocol:
  "let req = mkParams ch (case msgCache s of [] \<Rightarrow> e | m # q \<Rightarrow> m) now;
       s' = snd (snd (cloudwatchWriter svc now e (ch, s)))
   in
     (PutLogEvents svc p (world s) = (Inr resp, w') \<longrightarrow>
        sendEvent svc p (ch, s) =
          (None, ch\<lparr>nextSequenceToken := NextSequenceToken resp\<rparr>,
           s\<lparr>world := w', trace := trace s @ [PutLogEventsEv p (Inr resp)]\<rparr>))
   \<and> (PutLogEvents svc p (world s) = (Inl err, w') \<longrightarrow>
        sendEvent svc p (ch, s) =
          (Some err, ch, s\<lparr>world := w', trace := trace s @ [PutLogEventsEv p (Inl err)]\<rparr>))
   \<and> (isAcceptedLevel ch (Level e) \<longrightarrow>
        SequenceToken req = nextSequenceToken ch
        \<and> (if Async ch then spawned s' = spawned s @ [req] \<and> trace s' = trace s
            else trace s' = trace s @ [PutLogEventsEv req (fst (PutLogEvents svc req (world s)))]
                 \<and> spawned s' = spawned s))
   \<and> (i < length (spawned s) \<longrightarrow>
        trace (snd (runSpawned svc i (ch, s))) =
          trace s @ [PutLogEventsEv (spawned s ! i)
                       (fst (PutLogEvents svc (spawned s ! i) (world s)))])
   \<and> (ps \<noteq> [] \<and> sendEvents svc ps (ch0, s0) = (rs, ch, s) \<and> (\<forall>r\<in>set rs. r = None) \<longrightarrow>
        (\<exists>respN. last (trace s) = PutLogEventsEv (last ps) (Inr respN)
                 \<and> nextSequenceToken ch = NextSequenceToken respN
                 \<and> SequenceToken req = NextSequenceToken respN))"
proof -
  have go: "i < length (spawned s) \<Longrightarrow>
      trace (snd (runSpawned svc i (ch, s))) =
        trace s @ [PutLogEventsEv (spawned s ! i)
                     (fst (PutLogEvents svc (spawned s ! i) (world s)))]"
    by (simp add: runSpawned_def sendEvent_def Let_def split: prod.splits sum.splits)
  have tok: "SequenceToken (mkParams ch x now) = nextSequenceToken ch" for x
    by (simp add: mkParams_def)
  have built: "isAcceptedLevel ch (Level e) \<Longrightarrow>
      (if Async ch
       then spawned (snd (snd (cloudwatchWriter svc now e (ch, s)))) =
              spawned s @ [mkParams ch (case msgCache s of [] \<Rightarrow> e | m # q \<Rightarrow> m) now]
            \<and> trace (snd (snd (cloudwatchWriter svc now e (ch, s)))) = trace s
       else trace (snd (snd (cloudwatchWriter svc now e (ch, s)))) =
              trace s @ [PutLogEventsEv (mkParams ch (case msgCache s of [] \<Rightarrow> e | m # q \<Rightarrow> m) now)
                           (fst (PutLogEvents svc
                                  (mkParams ch (case msgCache s of [] \<Rightarrow> e | m # q \<Rightarrow> m) now)
                                  (world s)))]
            \<and> spawned (snd (snd (cloudwatchWriter svc now e (ch, s)))) = spawned s)"
    by (simp add: cloudwatchWriter_accepted Let_def sendEvent_def split: prod.splits sum.splits)
  have run: "ps \<noteq> [] \<and> sendEvents svc ps (ch0, s0) = (rs, ch, s) \<and> (\<forall>r\<in>set rs. r = None) \<Longrightarrow>
      \<exists>respN. last (trace s) = PutLogEventsEv (last ps) (Inr respN)
             \<and> nextSequenceToken ch = NextSequenceToken respN"
    using sendEvents_last [of ps svc ch0 s0 rs ch s] by blast
  show ?thesis
    unfolding Let_def
    using built run go
    by (auto simp: tok sendEvent_ok sendEvent_err)
qed

theorem sequence_token_protocol_witness:
  "sendEvent (scriptedSvc oneGroup None oneStream None putOk)
       (reqWith ''[svc] one'' 1 (Some ''tok'')) (hookWith (Some ''tok''), startState [])
     = (None, hookWith (Some ''t''),
        (startState [])
          \<lparr>world := 1,
           trace := [PutLogEventsEv (reqWith ''[svc] one'' 1 (Some ''tok''))
                       (Inr \<lparr>NextSequenceToken = Some ''t''\<rparr>)]\<rparr>)
   \<and> sendEvent (scriptedSvc oneGroup None oneStream None putFail)
       (reqWith ''[svc] one'' 1 (Some ''tok'')) (hookWith (Some ''tok''), startState [])
     = (Some (Error ''InvalidSequenceTokenException''), hookWith (Some ''tok''),
        (startState [])
          \<lparr>world := 1,
           trace := [PutLogEventsEv (reqWith ''[svc] one'' 1 (Some ''tok''))
                       (Inl (Error ''InvalidSequenceTokenException''))]\<rparr>)
   \<and> sendEvents (scriptedSvc oneGroup None oneStream None putOk)
       [reqWith ''[svc] one'' 1 (Some ''tok''), reqWith ''[svc] two'' 2 (Some ''t'')]
       (hookWith (Some ''tok''), startState [])
     = ([None, None], hookWith (Some ''tt''), twoSent)
   \<and> trace (snd (runSpawned (scriptedSvc oneGroup None oneStream None putOk) 0
                    (hookWith (Some ''tt''),
                     twoSent\<lparr>spawned := [reqWith ''[svc] late'' 1 (Some ''tok'')]\<rparr>)))
     = trace twoSent @
         [PutLogEventsEv (reqWith ''[svc] late'' 1 (Some ''tok''))
            (Inr \<lparr>NextSequenceToken = Some ''ttt''\<rparr>)]
   \<and> isAcceptedLevel (hookWith (Some ''tt'')) (Level (entryAt InfoLevel ''svc'' ''three''))
   \<and> SequenceToken (mkParams (hookWith (Some ''tt'')) (entryAt InfoLevel ''svc'' ''three'') 3000000)
     = Some ''tt''
   \<and> trace (snd (snd (cloudwatchWriter (scriptedSvc oneGroup None oneStream None putOk) 3000000
                         (entryAt InfoLevel ''svc'' ''three'') (hookWith (Some ''tt''), twoSent))))
     = trace twoSent @
         [PutLogEventsEv (reqWith ''[svc] three'' 3 (Some ''tt''))
            (Inr \<lparr>NextSequenceToken = Some ''ttt''\<rparr>)]"
proof -
  note defs = fixture_defs hookWith_def reqWith_def twoSent_def putOk_def putFail_def
  have acc: "isAcceptedLevel (hookWith (Some ''tt'')) (Level (entryAt InfoLevel ''svc'' ''three''))"
    by (simp add: isAcceptedLevel_set Levels_def LevelThreshold_dropWhile AllLevels_def
        level_defs defs)
  have two: "sendEvents (scriptedSvc oneGroup None oneStream None putOk)
       [reqWith ''[svc] one'' 1 (Some ''tok''), reqWith ''[svc] two'' 2 (Some ''t'')]
       (hookWith (Some ''tok''), startState [])
     = ([None, None], hookWith (Some ''tt''), twoSent)"
    by (simp add: sendEvent_def defs)
  have ts: "int64_div 3000000 1000000 = 3"
    by (simp add: int64_div_def signed_divide_int_def)
  have r: "replicate 2 CHR ''t'' = ''tt''"
    by (simp add: numeral_eq_Suc)
  note T = sequence_token_protocol
      [where svc = "scriptedSvc oneGroup None oneStream None putOk"
         and ch = "hookWith (Some ''tt'')" and s = twoSent
         and e = "entryAt InfoLevel ''svc'' ''three''" and now = 3000000
         and ps = "[reqWith ''[svc] one'' 1 (Some ''tok''), reqWith ''[svc] two'' 2 (Some ''t'')]"
         and ?ch0.0 = "hookWith (Some ''tok'')" and ?s0.0 = "startState []"
         and rs = "[None, None]"
         and p = "reqWith ''[svc] three'' 3 (Some ''tt'')"
         and resp = "\<lparr>NextSequenceToken = Some ''ttt''\<rparr>" and w' = 3
         and err = "Error ''none''",
       unfolded Let_def]
  have a: "sendEvent (scriptedSvc oneGroup None oneStream None putOk)
       (reqWith ''[svc] one'' 1 (Some ''tok'')) (hookWith (Some ''tok''), startState [])
     = (None, hookWith (Some ''t''),
        (startState [])
          \<lparr>world := 1,
           trace := [PutLogEventsEv (reqWith ''[svc] one'' 1 (Some ''tok''))
                       (Inr \<lparr>NextSequenceToken = Some ''t''\<rparr>)]\<rparr>)"
    using sequence_token_protocol
      [where svc = "scriptedSvc oneGroup None oneStream None putOk"
         and ch = "hookWith (Some ''tok'')" and s = "startState []"
         and p = "reqWith ''[svc] one'' 1 (Some ''tok'')"
         and resp = "\<lparr>NextSequenceToken = Some ''t''\<rparr>" and w' = 1,
       unfolded Let_def, THEN conjunct1]
    by (simp add: defs)
  have b: "sendEvent (scriptedSvc oneGroup None oneStream None putFail)
       (reqWith ''[svc] one'' 1 (Some ''tok'')) (hookWith (Some ''tok''), startState [])
     = (Some (Error ''InvalidSequenceTokenException''), hookWith (Some ''tok''),
        (startState [])
          \<lparr>world := 1,
           trace := [PutLogEventsEv (reqWith ''[svc] one'' 1 (Some ''tok''))
                       (Inl (Error ''InvalidSequenceTokenException''))]\<rparr>)"
    using sequence_token_protocol
      [where svc = "scriptedSvc oneGroup None oneStream None putFail"
         and ch = "hookWith (Some ''tok'')" and s = "startState []"
         and p = "reqWith ''[svc] one'' 1 (Some ''tok'')"
         and err = "Error ''InvalidSequenceTokenException''" and w' = 1,
       unfolded Let_def, THEN conjunct2, THEN conjunct1]
    by (simp add: defs)
  have c: "trace (snd (snd (cloudwatchWriter (scriptedSvc oneGroup None oneStream None putOk) 3000000
                         (entryAt InfoLevel ''svc'' ''three'') (hookWith (Some ''tt''), twoSent))))
     = trace twoSent @
         [PutLogEventsEv (reqWith ''[svc] three'' 3 (Some ''tt''))
            (Inr \<lparr>NextSequenceToken = Some ''ttt''\<rparr>)]"
    using T [THEN conjunct2, THEN conjunct2, THEN conjunct1] acc
    by (simp add: mkParams_def ts r defs)
  have d: "SequenceToken (mkParams (hookWith (Some ''tt'')) (entryAt InfoLevel ''svc'' ''three'') 3000000)
     = Some ''tt''"
    using T [THEN conjunct2, THEN conjunct2, THEN conjunct2, THEN conjunct2] two
    by (simp add: twoSent_def reqWith_def)
  have g: "trace (snd (runSpawned (scriptedSvc oneGroup None oneStream None putOk) 0
                    (hookWith (Some ''tt''),
                     twoSent\<lparr>spawned := [reqWith ''[svc] late'' 1 (Some ''tok'')]\<rparr>)))
     = trace twoSent @
         [PutLogEventsEv (reqWith ''[svc] late'' 1 (Some ''tok''))
            (Inr \<lparr>NextSequenceToken = Some ''ttt''\<rparr>)]"
    using sequence_token_protocol
      [where svc = "scriptedSvc oneGroup None oneStream None putOk"
         and ch = "hookWith (Some ''tt'')"
         and s = "twoSent\<lparr>spawned := [reqWith ''[svc] late'' 1 (Some ''tok'')]\<rparr>"
         and i = 0,
       unfolded Let_def, THEN conjunct2, THEN conjunct2, THEN conjunct2, THEN conjunct1]
    by (simp add: r defs)
  from a b two g acc d c show ?thesis
    by (simp only: simp_thms)
qed

end
